theory Spec2Isabelle
  imports Complex_Main
begin

section \<open>Values and errors\<close>

text \<open>
  A cell of a data frame that holds a score is a finite real or NaN ("missing");
  \<open>None\<close> is NaN.  The exceptions the modelled functions can raise are values of
  type \<open>error\<close>; a function that can raise returns \<open>error + 'a\<close>.
\<close>

datatype error = ValueError | KeyError nat | UnboundLocalError | IndexError

text \<open>Sequencing: the first exception that is raised ends the computation.\<close>

definition bind :: "error + 'a \<Rightarrow> ('a \<Rightarrow> error + 'b) \<Rightarrow> error + 'b" where
  "bind m f = (case m of Inl e \<Rightarrow> Inl e | Inr x \<Rightarrow> f x)"

definition isna :: "real option \<Rightarrow> bool" where
  "isna x = (x = None)"

text \<open>Arithmetic on cells: NaN is absorbing.\<close>

fun oadd :: "real option \<Rightarrow> real option \<Rightarrow> real option" where
  "oadd (Some a) (Some b) = Some (a + b)"
| "oadd _ _ = None"

fun smul :: "real \<Rightarrow> real option \<Rightarrow> real option" where
  "smul c (Some a) = Some (c * a)"
| "smul c None = None"

text \<open>Comparison of a cell with a cell: every comparison with NaN is false.\<close>

fun ole :: "real option \<Rightarrow> real option \<Rightarrow> bool" where
  "ole (Some a) (Some b) = (a \<le> b)"
| "ole _ _ = False"

text \<open>The non-missing values of a column or of a row slice, in order (\<open>dropna\<close>).\<close>

fun dropna :: "real option list \<Rightarrow> real list" where
  "dropna [] = []"
| "dropna (None # xs) = dropna xs"
| "dropna (Some x # xs) = x # dropna xs"

section \<open>Domain scores (\<open>calculate_domain_scores\<close>)\<close>

text \<open>
  The ten normalised measure columns the function reads, for one facility.
\<close>

record measures =
  n_var1_f :: "real option"
  n_var2_f :: "real option"
  n_var3_f :: "real option"
  n_var4_f :: "real option"
  w_star_var5_f :: "real option"
  w_star_var6_f :: "real option"
  w_star_var7_f :: "real option"
  w_star_var8_f :: "real option"
  n_var9_f :: "real option"
  w_star_var10_f :: "real option"

text \<open>\<open>isna().astype(int)\<close>: the missing indicator of a cell.\<close>

definition m_ind :: "real option \<Rightarrow> nat" where
  "m_ind x = (if isna x then 1 else 0)"

text \<open>
  \<open>DataFrame.mean(axis=1)\<close> skips NaN: the mean of the non-missing cells of the
  row slice, NaN when there is none.
\<close>

definition row_mean :: "real option list \<Rightarrow> real option" where
  "row_mean xs =
     (let ys = dropna xs
      in if ys = [] then None else Some (sum_list ys / real (length ys)))"

definition np_where :: "bool \<Rightarrow> 'a \<Rightarrow> 'a \<Rightarrow> 'a" where
  "np_where c a b = (if c then a else b)"

definition factor1 :: "measures \<Rightarrow> real option" where
  "factor1 r =
     np_where
       (sum_list (map m_ind [n_var1_f r, n_var2_f r, n_var3_f r, n_var4_f r]) = 4)
       None
       (row_mean [n_var1_f r, n_var2_f r, n_var3_f r, n_var4_f r])"

definition factor2 :: "measures \<Rightarrow> real option" where
  "factor2 r =
     np_where
       (sum_list (map m_ind [w_star_var5_f r, w_star_var6_f r]) = 2)
       None
       (row_mean [w_star_var5_f r, w_star_var6_f r])"

definition factor3 :: "measures \<Rightarrow> real option" where
  "factor3 r =
     np_where
       (sum_list (map m_ind [w_star_var7_f r, w_star_var8_f r]) = 2)
       None
       (row_mean [w_star_var7_f r, w_star_var8_f r])"

definition factor4 :: "measures \<Rightarrow> real option" where
  "factor4 r =
     np_where
       (sum_list (map m_ind [n_var9_f r, w_star_var10_f r]) = 2)
       None
       (row_mean [n_var9_f r, w_star_var10_f r])"

text \<open>The constituent columns of each domain, as the function lists them.\<close>

definition domain1 :: "measures \<Rightarrow> real option list" where
  "domain1 r = [n_var1_f r, n_var2_f r, n_var3_f r, n_var4_f r]"

definition domain2 :: "measures \<Rightarrow> real option list" where
  "domain2 r = [w_star_var5_f r, w_star_var6_f r]"

definition domain3 :: "measures \<Rightarrow> real option list" where
  "domain3 r = [w_star_var7_f r, w_star_var8_f r]"

definition domain4 :: "measures \<Rightarrow> real option list" where
  "domain4 r = [n_var9_f r, w_star_var10_f r]"

text \<open>
  What the specification asks of a domain score over constituents \<open>xs\<close>: missing
  exactly when every constituent is missing, and otherwise the sum of the non-missing
  constituents divided by their number.
\<close>

definition domain_score_ok :: "real option list \<Rightarrow> real option \<Rightarrow> bool" where
  "domain_score_ok xs s =
     ((s = None) = (dropna xs = []) \<and>
      (dropna xs = [] \<or> s = Some (sum_list (dropna xs) / real (length (dropna xs)))))"

section \<open>Composite score (\<open>calculate_final_score\<close>)\<close>

text \<open>
  \<open>numpy.select(condlist, choicelist, default)\<close>: numpy first checks that the two
  lists have the same length and raises \<open>ValueError\<close> otherwise (also for an empty
  condition list); then every row takes the choice of the first condition that holds
  for it, and the default when none holds.  Columns are lists indexed by row; a scalar
  choice is a column that repeats it.
\<close>

fun select_row :: "bool list \<Rightarrow> 'a list \<Rightarrow> 'a \<Rightarrow> 'a" where
  "select_row (c # cs) (x # xs) d = (if c then x else select_row cs xs d)"
| "select_row _ _ d = d"

definition np_select :: "bool list list \<Rightarrow> 'a list list \<Rightarrow> 'a list \<Rightarrow> error + 'a list" where
  "np_select condlist choicelist dflt =
     (if length condlist \<noteq> length choicelist then Inl ValueError
      else if condlist = [] then Inl ValueError
      else Inr (map (\<lambda>i. select_row (map (\<lambda>c. c ! i) condlist)
                                      (map (\<lambda>c. c ! i) choicelist) (dflt ! i))
                    [0..<length dflt]))"

text \<open>The columns \<open>calculate_final_score\<close> reads, for one facility.\<close>

record domains =
  d_factor1 :: "real option"
  d_factor2 :: "real option"
  d_factor3 :: "real option"
  d_factor4 :: "real option"
  pdflag :: int

text \<open>The two weighted sums; both are computed for every row, \<open>np.where\<close> picks one.\<close>

definition weighted_pd :: "domains \<Rightarrow> real option" where
  "weighted_pd r =
     oadd (oadd (smul (2/5) (d_factor1 r)) (smul (1/5) (d_factor3 r)))
          (smul (2/5) (d_factor4 r))"

definition weighted_all :: "domains \<Rightarrow> real option" where
  "weighted_all r =
     oadd (oadd (oadd (smul (2/7) (d_factor1 r)) (smul (2/7) (d_factor2 r)))
                (smul (1/7) (d_factor3 r)))
          (smul (2/7) (d_factor4 r))"

definition final_conditions :: "domains list \<Rightarrow> bool list list" where
  "final_conditions df =
     [map (\<lambda>r. isna (d_factor1 r)) df,
      map (\<lambda>r. isna (d_factor3 r)) df,
      map (\<lambda>r. isna (d_factor4 r)) df,
      map (\<lambda>r. pdflag r = 0 \<and> isna (d_factor2 r)) df]"

definition final_choices :: "domains list \<Rightarrow> real option list list" where
  "final_choices df =
     [map (\<lambda>r. None) df,
      map (\<lambda>r. None) df,
      map (\<lambda>r. None) df,
      map (\<lambda>r. None) df,
      map (\<lambda>r. np_where (pdflag r = 1) (weighted_pd r) (weighted_all r)) df]"

definition calculate_final_score :: "domains list \<Rightarrow> error + real option list" where
  "calculate_final_score df =
     np_select (final_conditions df) (final_choices df) (last (final_choices df))"

section \<open>Star ranks (\<open>assign_star_ranks\<close>)\<close>

text \<open>
  \<open>numpy.percentile(a, q)\<close> with the default linear interpolation on the sorted
  values: the virtual index \<open>q/100 * (n - 1)\<close> lies between two neighbours, and the
  result is interpolated between them.  On an empty array numpy raises
  \<open>IndexError\<close>.  The function asks for the 10th, 30th, 70th, 90th and 100th
  percentile in one call; the last one is not used.
\<close>

definition np_percentile :: "real list \<Rightarrow> real \<Rightarrow> error + real" where
  "np_percentile a q =
     (if a = [] then Inl IndexError
      else let s = sort a;
               n = length s;
               vi = q / 100 * real (n - 1);
               lo = nat \<lfloor>vi\<rfloor>;
               hi = min (lo + 1) (n - 1);
               g = vi - real lo
           in Inr (s ! lo + (s ! hi - s ! lo) * g))"

text \<open>
  The list of choices as the function writes it: NaN, then the ranks 1 to 5.  The call
  passes the list without its first element, and its last element as the default.
\<close>

definition rank_choices :: "int option list" where
  "rank_choices = [None, Some 1, Some 2, Some 3, Some 4, Some 5]"

definition rank_conditions ::
  "real option list \<Rightarrow> real \<Rightarrow> real \<Rightarrow> real \<Rightarrow> real \<Rightarrow> bool list list" where
  "rank_conditions final_score q1 q2 q3 q4 =
     [map isna final_score,
      map (\<lambda>x. ole x (Some q1)) final_score,
      map (\<lambda>x. ole x (Some q2)) final_score,
      map (\<lambda>x. ole x (Some q3)) final_score,
      map (\<lambda>x. ole x (Some q4)) final_score]"

definition assign_star_ranks :: "real option list \<Rightarrow> error + int option list" where
  "assign_star_ranks final_score =
     (let sc = dropna final_score
      in bind (np_percentile sc 10) (\<lambda>q1.
         bind (np_percentile sc 30) (\<lambda>q2.
         bind (np_percentile sc 70) (\<lambda>q3.
         bind (np_percentile sc 90) (\<lambda>q4.
         bind (np_percentile sc 100) (\<lambda>q5.
           np_select (rank_conditions final_score q1 q2 q3 q4)
             (map (\<lambda>c. map (\<lambda>x. c) final_score) (tl rank_choices))
             (map (\<lambda>x. last rank_choices) final_score)))))))"

section \<open>Cutoffs between star ranks (\<open>calculate_cutoffs\<close>)\<close>

text \<open>
  A scored row is its star rank and its composite score.  \<open>groupby('starrank')\<close>
  drops the rows whose key is NaN and orders the groups by key; \<open>min\<close> and
  \<open>max\<close> skip NaN scores and are NaN for a group without any score.
  \<open>reset_index\<close> numbers the groups 0, 1, 2, ... in that order.
\<close>

type_synonym scored = "int option \<times> real option"

definition group_keys :: "scored list \<Rightarrow> int list" where
  "group_keys df = sort (remdups (concat (map (\<lambda>(k, s). case k of None \<Rightarrow> [] | Some j \<Rightarrow> [j]) df)))"

definition group_scores :: "scored list \<Rightarrow> int \<Rightarrow> real list" where
  "group_scores df j = dropna (map snd (filter (\<lambda>(k, s). k = Some j) df))"

definition agg_min :: "real list \<Rightarrow> real option" where
  "agg_min ys = (case ys of [] \<Rightarrow> None | y # zs \<Rightarrow> Some (fold min zs y))"

definition agg_max :: "real list \<Rightarrow> real option" where
  "agg_max ys = (case ys of [] \<Rightarrow> None | y # zs \<Rightarrow> Some (fold max zs y))"

record agg_row =
  starrank :: int
  score_min :: "real option"
  score_max :: "real option"

definition agg_table :: "scored list \<Rightarrow> agg_row list" where
  "agg_table df =
     map (\<lambda>j. \<lparr>starrank = j, score_min = agg_min (group_scores df j),
                score_max = agg_max (group_scores df j)\<rparr>) (group_keys df)"

text \<open>\<open>cutoffs.loc[k, col]\<close>: the row labelled \<open>k\<close>, or \<open>KeyError\<close> when there is none.\<close>

definition loc :: "agg_row list \<Rightarrow> nat \<Rightarrow> (agg_row \<Rightarrow> real option) \<Rightarrow> error + real option" where
  "loc tab k col = (if k < length tab then Inr (col (tab ! k)) else Inl (KeyError k))"

definition midpoint :: "real option \<Rightarrow> real option \<Rightarrow> real option" where
  "midpoint a b = map_option (\<lambda>x. x / 2) (oadd a b)"

definition cutoff_at :: "agg_row list \<Rightarrow> nat \<Rightarrow> error + real option" where
  "cutoff_at tab k =
     bind (loc tab k score_max) (\<lambda>a. bind (loc tab (k + 1) score_min) (\<lambda>b. Inr (midpoint a b)))"

definition calculate_cutoffs ::
  "scored list \<Rightarrow> error + (real option \<times> real option \<times> real option \<times> real option)" where
  "calculate_cutoffs df =
     (let cutoffs = agg_table df
      in bind (cutoff_at cutoffs 0) (\<lambda>c1.
         bind (cutoff_at cutoffs 1) (\<lambda>c2.
         bind (cutoff_at cutoffs 2) (\<lambda>c3.
         bind (cutoff_at cutoffs 3) (\<lambda>c4. Inr (c1, c2, c3, c4))))))"

section \<open>Percentiles (\<open>calculate_percentiles\<close>)\<close>

text \<open>
  \<open>rank(method='average')\<close> of one column: a non-missing value gets the mean of the
  positions its ties occupy in the sorted non-missing values, that is the number of
  smaller values plus half of (the number of equal values plus one); NaN keeps NaN.
\<close>

definition rank_average :: "real option list \<Rightarrow> real option list" where
  "rank_average col =
     (let vs = dropna col
      in map (map_option (\<lambda>x. real (length (filter (\<lambda>y. y < x) vs))
                               + (real (length (filter (\<lambda>y. y = x) vs)) + 1) / 2)) col)"

text \<open>
  \<open>astype(int)\<close> raises \<open>ValueError\<close> when the column holds a NaN, and truncates
  towards zero otherwise.
\<close>

definition trunc :: "real \<Rightarrow> int" where
  "trunc x = (if 0 \<le> x then \<lfloor>x\<rfloor> else \<lceil>x\<rceil>)"

definition astype_int :: "real option list \<Rightarrow> error + int list" where
  "astype_int col = (if None \<in> set col then Inl ValueError else Inr (map (\<lambda>x. trunc (the x)) col))"

text \<open>
  The percentiles of one column.  The probit column is \<open>norm.ppf\<close> of the
  percentile divided by 100; its values are not modelled, but the \<open>apply\<close> that
  computes them raises \<open>ValueError\<close> on a frame without rows.
\<close>

definition calculate_percentiles :: "real option list \<Rightarrow> error + real list" where
  "calculate_percentiles col =
     bind (astype_int (map (map_option (\<lambda>r. r - 1)) (rank_average col)))
       (\<lambda>ranked.
          let percentiles = map (\<lambda>k. real_of_int (k + 1) / 200 * 100) ranked
          in if percentiles = [] then Inl ValueError else Inr percentiles)"

section \<open>Floating-point values with NaN and infinities\<close>

text \<open>
  Where the code divides, a value can also be infinite.  \<open>fl\<close> is a double in exact
  arithmetic: a real, plus or minus infinity, or NaN; rounding is not modelled, and
  there is one zero (a division of a non-zero value by zero has the sign of the
  numerator).  The operations follow IEEE 754 on the special values.
\<close>

datatype fl = Fin real | PInf | NInf | NaN

fun of_cell :: "real option \<Rightarrow> fl" where
  "of_cell None = NaN"
| "of_cell (Some x) = Fin x"

fun fneg :: "fl \<Rightarrow> fl" where
  "fneg (Fin a) = Fin (- a)"
| "fneg PInf = NInf"
| "fneg NInf = PInf"
| "fneg NaN = NaN"

fun fadd :: "fl \<Rightarrow> fl \<Rightarrow> fl" where
  "fadd NaN _ = NaN"
| "fadd _ NaN = NaN"
| "fadd (Fin a) (Fin b) = Fin (a + b)"
| "fadd PInf NInf = NaN"
| "fadd NInf PInf = NaN"
| "fadd PInf _ = PInf"
| "fadd _ PInf = PInf"
| "fadd NInf _ = NInf"
| "fadd _ NInf = NInf"

definition fsub :: "fl \<Rightarrow> fl \<Rightarrow> fl" where
  "fsub a b = fadd a (fneg b)"

fun fdiv :: "fl \<Rightarrow> fl \<Rightarrow> fl" where
  "fdiv NaN _ = NaN"
| "fdiv _ NaN = NaN"
| "fdiv (Fin a) (Fin b) =
     (if b = 0 then (if a = 0 then NaN else if 0 < a then PInf else NInf) else Fin (a / b))"
| "fdiv (Fin a) _ = Fin 0"
| "fdiv PInf (Fin b) = (if b < 0 then NInf else PInf)"
| "fdiv NInf (Fin b) = (if b < 0 then PInf else NInf)"
| "fdiv _ _ = NaN"

text \<open>\<open>abs(x) ** 2\<close> and the square root.\<close>

fun fsq :: "fl \<Rightarrow> fl" where
  "fsq (Fin a) = Fin (a * a)"
| "fsq NaN = NaN"
| "fsq _ = PInf"

fun fsqrt :: "fl \<Rightarrow> fl" where
  "fsqrt (Fin a) = (if a < 0 then NaN else Fin (sqrt a))"
| "fsqrt PInf = PInf"
| "fsqrt _ = NaN"

text \<open>Comparisons: every comparison with NaN is false.\<close>

fun flt :: "fl \<Rightarrow> fl \<Rightarrow> bool" where
  "flt NaN _ = False"
| "flt _ NaN = False"
| "flt (Fin a) (Fin b) = (a < b)"
| "flt PInf _ = False"
| "flt _ PInf = True"
| "flt NInf (Fin b) = True"
| "flt _ NInf = False"

definition fgt :: "fl \<Rightarrow> fl \<Rightarrow> bool" where
  "fgt a b = flt b a"

fun fle :: "fl \<Rightarrow> fl \<Rightarrow> bool" where
  "fle NaN _ = False"
| "fle _ NaN = False"
| "fle (Fin a) (Fin b) = (a \<le> b)"
| "fle NInf _ = True"
| "fle _ PInf = True"
| "fle _ _ = False"

definition fge :: "fl \<Rightarrow> fl \<Rightarrow> bool" where
  "fge a b = fle b a"

text \<open>
  numpy's reductions over an array: the sum, the mean (NaN for an empty array), the
  population standard deviation (\<open>ddof = 0\<close>), and the maximum and minimum, which
  propagate NaN and raise \<open>ValueError\<close> on an empty array.
\<close>

definition np_sum :: "fl list \<Rightarrow> fl" where
  "np_sum t = foldl fadd (Fin 0) t"

definition np_mean :: "fl list \<Rightarrow> fl" where
  "np_mean t = fdiv (np_sum t) (Fin (real (length t)))"

definition np_std :: "fl list \<Rightarrow> fl" where
  "np_std t = fsqrt (np_mean (map (\<lambda>x. fsq (fsub x (np_mean t))) t))"

definition fmax :: "fl \<Rightarrow> fl \<Rightarrow> fl" where
  "fmax a b = (if a = NaN \<or> b = NaN then NaN else if flt a b then b else a)"

definition fmin :: "fl \<Rightarrow> fl \<Rightarrow> fl" where
  "fmin a b = (if a = NaN \<or> b = NaN then NaN else if flt b a then b else a)"

definition np_max :: "fl list \<Rightarrow> error + fl" where
  "np_max t = (case t of [] \<Rightarrow> Inl ValueError | x # xs \<Rightarrow> Inr (foldl fmax x xs))"

definition np_min :: "fl list \<Rightarrow> error + fl" where
  "np_min t = (case t of [] \<Rightarrow> Inl ValueError | x # xs \<Rightarrow> Inr (foldl fmin x xs))"

text \<open>
  pandas' reductions over a column of finite or missing values skip the missing ones:
  the mean is NaN when nothing is left, and the sample standard deviation
  (\<open>ddof = 1\<close>) is NaN when fewer than two values are left.  They are exact here.
  The floating-point results can differ from them in the last digits: for the column
  0.1, 0.1, 0.1 pandas returns a mean one unit in the last place above 0.1 and a
  standard deviation of about \<open>1.7e-17\<close>, where the exact values are 0.1 and 0.
\<close>

definition pd_mean :: "real option list \<Rightarrow> fl" where
  "pd_mean col =
     (let ys = dropna col
      in if ys = [] then NaN else Fin (sum_list ys / real (length ys)))"

definition pd_std :: "real option list \<Rightarrow> fl" where
  "pd_std col =
     (let ys = dropna col; n = length ys; m = sum_list ys / real n
      in if n \<le> 1 then NaN
         else Fin (sqrt (sum_list (map (\<lambda>y. (y - m) * (y - m)) ys) / real (n - 1))))"

section \<open>Winsorization (\<open>winsorize\<close>)\<close>

definition threshold :: real where
  "threshold = 258 / 100"

definition step :: real where
  "step = 1 / 1000"

text \<open>The columns the function stores for a measure.\<close>

record winsor =
  w_var :: "fl list"
  mean_t :: fl
  std_t :: fl
  upl :: real
  lol :: real

text \<open>\<open>np.where(t > upl, upl, np.where(t < lol, lol, t))\<close> for one element.\<close>

definition clip :: "real \<Rightarrow> real \<Rightarrow> fl \<Rightarrow> fl" where
  "clip u l x = np_where (fgt x (Fin u)) (Fin u) (np_where (flt x (Fin l)) (Fin l) x)"

definition rescale :: "fl \<Rightarrow> fl \<Rightarrow> fl list \<Rightarrow> fl list" where
  "rescale m s t = map (\<lambda>x. fdiv (fsub x m) s) t"

text \<open>
  The loop \<open>for i in range(1, 10001)\<close>.  \<open>winsor_loop n i t u l\<close> runs the
  iterations \<open>i, i + 1, ...\<close> of which \<open>n\<close> are left, from the working series
  \<open>t\<close> and the limits \<open>u\<close> and \<open>l\<close>.  It returns the value of \<open>i\<close> at which the
  loop was left and the columns stored after the loop: the series, moments and limits
  as the last iteration left them, whether the loop was left by \<open>break\<close> or ran out.
  With no iteration at all the variables stored after the loop would be unbound.
\<close>

fun winsor_loop :: "nat \<Rightarrow> nat \<Rightarrow> fl list \<Rightarrow> real \<Rightarrow> real \<Rightarrow> error + (nat \<times> winsor)" where
  "winsor_loop 0 i t u l = Inl UnboundLocalError"
| "winsor_loop (Suc n) i t u l =
     (let t' = map (clip u l) t;
          m = np_mean t';
          s = np_std t';
          w = rescale m s t'
      in bind (np_max w) (\<lambda>max_w.
         bind (np_min w) (\<lambda>min_w.
           if fle max_w (Fin threshold) \<and> fge min_w (Fin (- threshold))
           then Inr (i, \<lparr>w_var = w, mean_t = m, std_t = s, upl = u, lol = l\<rparr>)
           else let u' = (if fgt max_w (Fin threshold) then u - step else u);
                    l' = (if flt min_w (Fin (- threshold)) then l + step else l)
                in if n = 0
                   then Inr (i, \<lparr>w_var = w, mean_t = m, std_t = s, upl = u', lol = l'\<rparr>)
                   else winsor_loop n (i + 1) t' u' l')))"

definition zscores :: "real option list \<Rightarrow> fl list" where
  "zscores col = rescale (pd_mean col) (pd_std col) (map of_cell col)"

definition winsorize :: "real option list \<Rightarrow> error + (nat \<times> winsor)" where
  "winsorize col = winsor_loop 10000 1 (zscores col) threshold (- threshold)"

text \<open>
  The function from its third statement on, for given values of \<open>mean_val\<close> and
  \<open>std_val\<close>: whatever the computation of the mean and the standard deviation of
  the column has returned, rounded or not.
\<close>

definition winsorize_with :: "fl \<Rightarrow> fl \<Rightarrow> real option list \<Rightarrow> error + (nat \<times> winsor)" where
  "winsorize_with mean_val std_val col =
     winsor_loop 10000 1 (rescale mean_val std_val (map of_cell col)) threshold (- threshold)"

text \<open>The rescaled series lies within the threshold on both sides.\<close>

definition within_threshold :: "fl list \<Rightarrow> bool" where
  "within_threshold w =
     (case (np_max w, np_min w) of
        (Inr a, Inr b) \<Rightarrow> fle a (Fin threshold) \<and> fge b (Fin (- threshold))
      | _ \<Rightarrow> False)"

section \<open>Current period (\<open>restandardize_var\<close>)\<close>

text \<open>
  A row of the current period is the facility identifier and the raw value of the
  measure.  The result has, per row, the z-score, the truncated value, the truncation
  flag and the re-standardized score, and is sorted by facility identifier.  Rows with
  the same identifier keep their order here; pandas leaves their order open.
\<close>

record current =
  provfs :: nat
  raw :: "real option"

record restandardized = current +
  zc :: fl
  tc :: fl
  flagtc :: nat
  wc :: fl

definition notna :: "fl \<Rightarrow> bool" where
  "notna x = (x \<noteq> NaN)"

definition restandardize_row ::
  "fl \<Rightarrow> fl \<Rightarrow> fl \<Rightarrow> fl \<Rightarrow> fl \<Rightarrow> fl \<Rightarrow> current \<Rightarrow> restandardized" where
  "restandardize_row mean_var std_var upl_var lol_var var_mean_t var_std_t r =
     (let z = fdiv (fsub (of_cell (raw r)) mean_var) std_var;
          t0 = z;
          f0 = (0::nat);
          f1 = (if notna t0 \<and> flt t0 lol_var then 1 else f0);
          f2 = (if fgt t0 upl_var then 2 else f1);
          t1 = (if f2 = 1 then lol_var else t0);
          t2 = (if f2 = 2 then upl_var else t1)
      in \<lparr>provfs = provfs r, raw = raw r, zc = z, tc = t2, flagtc = f2,
          wc = fdiv (fsub t2 var_mean_t) var_std_t\<rparr>)"

definition restandardize_var ::
  "current list \<Rightarrow> fl \<Rightarrow> fl \<Rightarrow> fl \<Rightarrow> fl \<Rightarrow> fl \<Rightarrow> fl \<Rightarrow> restandardized list" where
  "restandardize_var df_current mean_var std_var upl_var lol_var var_mean_t var_std_t =
     sort_key provfs
       (map (restandardize_row mean_var std_var upl_var lol_var var_mean_t var_std_t)
            df_current)"

text \<open>
  A series of ten values, nine equal ones and one other; the example series of the
  sections on winsorization have this form.
\<close>

definition nine_and_one :: "real \<Rightarrow> real \<Rightarrow> fl list" where
  "nine_and_one x y = map Fin [x, x, x, x, x, x, x, x, x, y]"

text \<open>
  A series of sixteen values: a first one, fourteen equal ones and a last one.
\<close>

definition one_fourteen_one :: "real \<Rightarrow> real \<Rightarrow> real \<Rightarrow> fl list" where
  "one_fourteen_one p c q = map Fin [p, c, c, c, c, c, c, c, c, c, c, c, c, c, c, q]"

text \<open>
  Sixteen facilities of a period, numbered 1 to 16, with the raw values \<open>- 1003\<close>,
  fourteen times 0, and 1000.
\<close>

definition sixteen_rows :: "current list" where
  "sixteen_rows =
     [\<lparr>provfs = 1, raw = Some (- 1003)\<rparr>, \<lparr>provfs = 2, raw = Some 0\<rparr>,
      \<lparr>provfs = 3, raw = Some 0\<rparr>, \<lparr>provfs = 4, raw = Some 0\<rparr>,
      \<lparr>provfs = 5, raw = Some 0\<rparr>, \<lparr>provfs = 6, raw = Some 0\<rparr>,
      \<lparr>provfs = 7, raw = Some 0\<rparr>, \<lparr>provfs = 8, raw = Some 0\<rparr>,
      \<lparr>provfs = 9, raw = Some 0\<rparr>, \<lparr>provfs = 10, raw = Some 0\<rparr>,
      \<lparr>provfs = 11, raw = Some 0\<rparr>, \<lparr>provfs = 12, raw = Some 0\<rparr>,
      \<lparr>provfs = 13, raw = Some 0\<rparr>, \<lparr>provfs = 14, raw = Some 0\<rparr>,
      \<lparr>provfs = 15, raw = Some 0\<rparr>, \<lparr>provfs = 16, raw = Some 1000\<rparr>]"

lemma dropna_empty_iff: "(dropna xs = []) = (xs = replicate (length xs) None)"
  by (induction xs rule: dropna.induct) auto

lemma m_ind_simps: "m_ind None = 1" "m_ind (Some x) = 0"
  by (simp_all add: m_ind_def isna_def)

lemma sum_m_ind_le: "sum_list (map m_ind xs) \<le> length xs"
  by (induction xs rule: dropna.induct) (simp_all add: m_ind_simps)

lemma sum_m_ind_eq_length: "(sum_list (map m_ind xs) = length xs) = (dropna xs = [])"
proof (induction xs rule: dropna.induct)
  case 1
  then show ?case by simp
next
  case (2 xs)
  then show ?case by (simp add: m_ind_simps)
next
  case (3 x xs)
  have "sum_list (map m_ind xs) \<le> length xs" by (rule sum_m_ind_le)
  then show ?case by (simp add: m_ind_simps)
qed

lemma gated_mean_ok:
  "length xs = n \<Longrightarrow>
   domain_score_ok xs (np_where (sum_list (map m_ind xs) = n) None (row_mean xs))"
  using sum_m_ind_eq_length [of xs]
  by (auto simp: domain_score_ok_def np_where_def row_mean_def Let_def)

text \<open>
  C8.  For every facility and each of the four domains, the domain score is missing if
  and only if all constituents of the domain are missing for the facility, and otherwise
  it is the arithmetic mean of the non-missing constituents only (the missing ones count
  neither in the sum nor in the number of terms).
\<close>

theorem domain_scores_missing_aware:
  "domain_score_ok (domain1 r) (factor1 r) \<and>
   domain_score_ok (domain2 r) (factor2 r) \<and>
   domain_score_ok (domain3 r) (factor3 r) \<and>
   domain_score_ok (domain4 r) (factor4 r)"
proof -
  have 1: "domain_score_ok (domain1 r) (factor1 r)"
    unfolding domain1_def factor1_def by (rule gated_mean_ok) simp
  have 2: "domain_score_ok (domain2 r) (factor2 r)"
    unfolding domain2_def factor2_def by (rule gated_mean_ok) simp
  have 3: "domain_score_ok (domain3 r) (factor3 r)"
    unfolding domain3_def factor3_def by (rule gated_mean_ok) simp
  have 4: "domain_score_ok (domain4 r) (factor4 r)"
    unfolding domain4_def factor4_def by (rule gated_mean_ok) simp
  from 1 2 3 4 show ?thesis by simp
qed

text \<open>
  C2 (evaluation).  The composite score is never produced: the call of
  \<open>numpy.select\<close> passes four conditions and five choices, so numpy raises
  \<open>ValueError\<close> for every data frame, before any row is looked at.
\<close>

theorem calculate_final_score_raises: "calculate_final_score df = Inl ValueError"
  by (simp add: calculate_final_score_def np_select_def final_conditions_def final_choices_def)

section \<open>Star ranks: the choices are shifted by one\<close>

text \<open>
  C1 (evaluation).  Twelve facilities, one without a composite score and eleven with the
  scores 1 to 11, so that the 10th, 30th, 70th and 90th percentile values are 2, 4, 8
  and 10.  The facility without a score gets rank 1 (not a missing rank), the scores at
  or below the 10th percentile value get rank 2, and so on: every condition is paired
  with the choice that belongs to the next one, and the last condition and the default
  both give rank 5.
\<close>

theorem assign_star_ranks_shifted:
  "assign_star_ranks
     [None, Some 1, Some 2, Some 3, Some 4, Some 5, Some 6, Some 7, Some 8, Some 9,
      Some 10, Some 11]
   = Inr [Some 1, Some 2, Some 2, Some 3, Some 3, Some 4, Some 4, Some 4, Some 4, Some 5,
          Some 5, Some 5]"
  by (simp add: assign_star_ranks_def np_select_def rank_conditions_def rank_choices_def
      np_percentile_def bind_def Let_def isna_def upt_conv_Cons)

section \<open>Cutoffs\<close>

lemma length_agg_table: "length (agg_table df) = length (group_keys df)"
  by (simp add: agg_table_def)

lemma agg_table_nth:
  "k < length (group_keys df) \<Longrightarrow>
   agg_table df ! k =
     \<lparr>starrank = group_keys df ! k,
      score_min = agg_min (group_scores df (group_keys df ! k)),
      score_max = agg_max (group_scores df (group_keys df ! k))\<rparr>"
  by (simp add: agg_table_def)

lemma distinct_group_keys: "distinct (group_keys df)"
  by (simp add: group_keys_def)

lemma cutoffs_short_table:
  assumes "length (group_keys df) < 5"
  shows "calculate_cutoffs df = Inl (KeyError (length (group_keys df)))"
proof -
  define n where "n = length (agg_table df)"
  have n: "n = length (group_keys df)" by (simp add: n_def length_agg_table)
  with assms have "n = 0 \<or> n = 1 \<or> n = 2 \<or> n = 3 \<or> n = 4" by arith
  then have "calculate_cutoffs df = Inl (KeyError n)"
    unfolding calculate_cutoffs_def Let_def cutoff_at_def loc_def n_def [symmetric]
    by (auto simp: bind_def)
  then show ?thesis by (simp add: n)
qed

lemma empty_rank_short_table:
  assumes sub: "set (group_keys df) \<subseteq> {1..5}" and k: "k \<in> {1..5}" "k \<notin> set (group_keys df)"
  shows "length (group_keys df) < 5"
proof -
  have "set (group_keys df) \<subseteq> {1..5} - {k}" using sub k by auto
  then have "card (set (group_keys df)) \<le> card ({1..5::int} - {k})"
    by (intro card_mono) auto
  also have "\<dots> = 4" using k by simp
  finally show ?thesis using distinct_card [OF distinct_group_keys, of df] by simp
qed

text \<open>
  C7 (as the code has it).  When the ranks that occur are exactly 1 to 5, boundary k is
  the mean of the largest score of rank k and the smallest score of rank k+1, for k from
  1 to 4.  When the ranks lie in 1..5 and one of them has no row, the table of groups
  has fewer than five rows and the lookup of the first absent row label raises
  \<open>KeyError\<close> with that label: the failure is the out-of-range lookup itself.
\<close>

theorem cutoffs_midpoints_or_key_error:
  "(group_keys df = [1, 2, 3, 4, 5] \<longrightarrow>
      calculate_cutoffs df =
        Inr (midpoint (agg_max (group_scores df 1)) (agg_min (group_scores df 2)),
             midpoint (agg_max (group_scores df 2)) (agg_min (group_scores df 3)),
             midpoint (agg_max (group_scores df 3)) (agg_min (group_scores df 4)),
             midpoint (agg_max (group_scores df 4)) (agg_min (group_scores df 5)))) \<and>
   (set (group_keys df) \<subseteq> {1..5} \<and> k \<in> {1..5} \<and> k \<notin> set (group_keys df) \<longrightarrow>
      length (group_keys df) < 5 \<and>
      calculate_cutoffs df = Inl (KeyError (length (group_keys df))))"
proof (intro conjI impI)
  assume keys: "group_keys df = [1, 2, 3, 4, 5]"
  then have tab: "agg_table df =
      map (\<lambda>j. \<lparr>starrank = j, score_min = agg_min (group_scores df j),
                 score_max = agg_max (group_scores df j)\<rparr>) [1, 2, 3, 4, 5]"
    by (simp add: agg_table_def)
  show "calculate_cutoffs df =
        Inr (midpoint (agg_max (group_scores df 1)) (agg_min (group_scores df 2)),
             midpoint (agg_max (group_scores df 2)) (agg_min (group_scores df 3)),
             midpoint (agg_max (group_scores df 3)) (agg_min (group_scores df 4)),
             midpoint (agg_max (group_scores df 4)) (agg_min (group_scores df 5)))"
    by (simp add: calculate_cutoffs_def Let_def cutoff_at_def loc_def bind_def tab)
next
  assume h: "set (group_keys df) \<subseteq> {1..5} \<and> k \<in> {1..5} \<and> k \<notin> set (group_keys df)"
  then show "length (group_keys df) < 5" by (intro empty_rank_short_table [of df k]) auto
next
  assume h: "set (group_keys df) \<subseteq> {1..5} \<and> k \<in> {1..5} \<and> k \<notin> set (group_keys df)"
  then have "length (group_keys df) < 5" by (intro empty_rank_short_table [of df k]) auto
  then show "calculate_cutoffs df = Inl (KeyError (length (group_keys df)))"
    by (rule cutoffs_short_table)
qed

text \<open>
  C7, on the scenario of the specification (ranks 1 to 5 with the score ranges 10..20, 21..30,
  31..70, 71..90, 91..100) gives the cutoffs 20.5, 30.5, 70.5 and 90.5; the same table
  without any facility of rank 4 raises \<open>KeyError 4\<close>.
\<close>

theorem cutoffs_midpoints_or_key_error_witness:
  "calculate_cutoffs
     [(Some 1, Some 10), (Some 1, Some 20), (Some 2, Some 21), (Some 2, Some 30),
      (Some 3, Some 31), (Some 3, Some 70), (Some 4, Some 71), (Some 4, Some 90),
      (Some 5, Some 91), (Some 5, Some 100)]
     = Inr (Some (41 / 2), Some (61 / 2), Some (141 / 2), Some (181 / 2)) \<and>
   calculate_cutoffs
     [(Some 1, Some 10), (Some 1, Some 20), (Some 2, Some 21), (Some 2, Some 30),
      (Some 3, Some 31), (Some 3, Some 70), (Some 5, Some 91), (Some 5, Some 100)]
     = Inl (KeyError 4)"
  using cutoffs_midpoints_or_key_error
          [of "[(Some 1, Some 10), (Some 1, Some 20), (Some 2, Some 21), (Some 2, Some 30),
                (Some 3, Some 31), (Some 3, Some 70), (Some 4, Some 71), (Some 4, Some 90),
                (Some 5, Some 91), (Some 5, Some 100)]" 4]
        cutoffs_midpoints_or_key_error
          [of "[(Some 1, Some 10), (Some 1, Some 20), (Some 2, Some 21), (Some 2, Some 30),
                (Some 3, Some 31), (Some 3, Some 70), (Some 5, Some 91), (Some 5, Some 100)]" 4]
  by (simp add: group_keys_def group_scores_def agg_min_def agg_max_def midpoint_def)

text \<open>
  C7, as stated.  With no facility of rank 4 the function does not fail with an error of its own: what
  is raised is the \<open>KeyError\<close> of the lookup of row 4 in a table of four rows.
\<close>

theorem cutoffs_empty_rank_counterexample:
  "calculate_cutoffs [(Some 1, Some 10), (Some 2, Some 21), (Some 3, Some 31), (Some 5, Some 91)]
     = Inl (KeyError 4)"
  by (simp add: calculate_cutoffs_def agg_table_def group_keys_def group_scores_def
      agg_min_def agg_max_def cutoff_at_def loc_def bind_def midpoint_def)

section \<open>Percentiles\<close>

lemma dropna_map_Some: "dropna (map (\<lambda>i. Some (f i)) xs) = map f xs"
  by (induction xs) auto
lemma len_lt: "i \<le> n \<Longrightarrow> length (filter (\<lambda>j::nat. j < i) [1..<Suc n]) = i - 1"
  by (induction n) auto
lemma len_eq: "1 \<le> i \<Longrightarrow> i \<le> n \<Longrightarrow> length (filter (\<lambda>j::nat. j = i) [1..<Suc n]) = 1"
  by (induction n) auto
lemma cnt_less: "i \<le> n \<Longrightarrow> length (filter (\<lambda>y. y < real i) (map real [1..<Suc n])) = i - 1"
proof -
  have "(\<lambda>y. y < real i) \<circ> real = (\<lambda>j. j < i)" by (auto simp: fun_eq_iff)
  then show "i \<le> n \<Longrightarrow> ?thesis" using len_lt [of i n] by (simp only: filter_map length_map)
qed
lemma cnt_eq: "1 \<le> i \<Longrightarrow> i \<le> n \<Longrightarrow> length (filter (\<lambda>y. y = real i) (map real [1..<Suc n])) = 1"
proof -
  have "(\<lambda>y. y = real i) \<circ> real = (\<lambda>j. j = i)" by (auto simp: fun_eq_iff)
  then show "1 \<le> i \<Longrightarrow> i \<le> n \<Longrightarrow> ?thesis" using len_eq [of i n] by (simp only: filter_map length_map)
qed
lemma rank_upt: "rank_average (map (\<lambda>i. Some (real i)) [1..<Suc n]) = map (\<lambda>i. Some (real i)) [1..<Suc n]"
proof -
  have "real (length (filter (\<lambda>y. y < real i) (map real [1..<Suc n])))
          + (real (length (filter (\<lambda>y. y = real i) (map real [1..<Suc n]))) + 1) / 2 = real i"
    if "i \<in> set [1..<Suc n]" for i
  proof -
    from that have i: "1 \<le> i" "i \<le> n" by auto
    have "real (i - 1) + (real 1 + 1) / 2 = real i" using i by (simp add: of_nat_diff)
    then show ?thesis by (simp only: cnt_less [OF i(2)] cnt_eq [OF i])
  qed
  then show ?thesis
    unfolding rank_average_def dropna_map_Some Let_def map_map o_def option.map
    by (intro map_cong refl) simp
qed
lemma pct_upt:
  assumes "0 < n"
  shows "calculate_percentiles (map (\<lambda>i. Some (real i)) [1..<Suc n]) = Inr (map (\<lambda>i. real i / 2) [1..<Suc n])"
proof -
  have t: "trunc (real i - 1) = int i - 1" if "1 \<le> i" for i
    using that by (simp add: trunc_def)
  have "real_of_int (trunc (real i - 1) + 1) / 200 * 100 = real i / 2" if "i \<in> set [1..<Suc n]" for i
  proof -
    from that have "1 \<le> i" by auto
    then show ?thesis by (simp add: t)
  qed
  then have m: "map (\<lambda>i. real_of_int (trunc (real i - 1) + 1) / 200 * 100) [1..<Suc n] = map (\<lambda>i. real i / 2) [1..<Suc n]"
    by (intro map_cong refl)
  have n: "None \<notin> set (map (\<lambda>i. Some (real i - 1)) [1..<Suc n])" by auto
  have ne: "(map (\<lambda>i. real i / 2) [1..<Suc n] = []) = False" using assms by simp
  show ?thesis
    unfolding calculate_percentiles_def rank_upt map_map o_def option.map astype_int_def
    using m n ne by (simp only: if_False bind_def sum.case map_map o_def option.sel Let_def)
qed

text \<open>
  C6 (evaluation).  A column of 200 distinct values, 1 to 200: row i gets the percentile
  i/2, so the last row gets the percentile 100, which is not strictly below 100.
\<close>

theorem percentile_reaches_100:
  "calculate_percentiles (map (\<lambda>i. Some (real i)) [1..<201])
     = Inr (map (\<lambda>i. real i / 2) [1..<201]) \<and>
   last (map (\<lambda>i. real i / 2) [1..<201]) = 100"
  using pct_upt [of 200] by (simp del: upt_Suc add: last_map)

section \<open>Arithmetic and comparisons with NaN\<close>

lemma flt_NaN_right [simp]: "flt x NaN = False" by (cases x) simp_all
lemma fle_NaN_right [simp]: "fle x NaN = False" by (cases x) simp_all
lemma fadd_NaN_right [simp]: "fadd x NaN = NaN" by (cases x) simp_all
lemma fsub_NaN [simp]: "fsub NaN x = NaN" "fsub x NaN = NaN" by (simp_all add: fsub_def)
lemma fsub_Fin [simp]: "fsub (Fin a) (Fin b) = Fin (a - b)" by (simp add: fsub_def)
lemma fgt_NaN [simp]: "fgt NaN x = False" "fgt x NaN = False" by (simp_all add: fgt_def)
lemma fge_NaN [simp]: "fge NaN x = False" "fge x NaN = False" by (simp_all add: fge_def)
lemma fgt_Fin [simp]: "fgt (Fin a) (Fin b) = (b < a)" by (simp add: fgt_def)
lemma fge_Fin [simp]: "fge (Fin a) (Fin b) = (b \<le> a)" by (simp add: fge_def)
lemma clip_NaN [simp]: "clip u l NaN = NaN" by (simp add: clip_def np_where_def)

section \<open>Current period: rows without a raw value\<close>

lemma restandardize_row_missing:
  "raw r = None \<Longrightarrow>
   restandardize_row m s u l mt st r =
     \<lparr>provfs = provfs r, raw = None, zc = NaN, tc = NaN, flagtc = 0, wc = NaN\<rparr>"
  by (simp add: restandardize_row_def Let_def notna_def)

lemma set_restandardize_var:
  "set (restandardize_var df m s u l mt st) = restandardize_row m s u l mt st ` set df"
  by (simp add: restandardize_var_def)

lemma raw_restandardize_row [simp]: "raw (restandardize_row m s u l mt st r) = raw r"
  by (simp add: restandardize_row_def Let_def)

text \<open>
  C10.  A row of the current period whose raw value is missing comes out with the
  truncation flag 0 and with a missing z-score, truncated value and re-standardized
  score, whatever the six parameters are: the row is in the result, and every row of
  the result without a raw value has this form.
\<close>

theorem missing_raw_stays_missing:
  assumes "r \<in> set df_current" and "raw r = None"
  shows "\<lparr>provfs = provfs r, raw = None, zc = NaN, tc = NaN, flagtc = 0, wc = NaN\<rparr>
           \<in> set (restandardize_var df_current mean_var std_var upl_var lol_var var_mean_t var_std_t) \<and>
         (\<forall>r' \<in> set (restandardize_var df_current mean_var std_var upl_var lol_var var_mean_t var_std_t).
            raw r' = None \<longrightarrow> flagtc r' = 0 \<and> zc r' = NaN \<and> tc r' = NaN \<and> wc r' = NaN)"
proof
  have "restandardize_row mean_var std_var upl_var lol_var var_mean_t var_std_t r
          \<in> set (restandardize_var df_current mean_var std_var upl_var lol_var var_mean_t var_std_t)"
    using assms(1) by (simp add: set_restandardize_var)
  then show "\<lparr>provfs = provfs r, raw = None, zc = NaN, tc = NaN, flagtc = 0, wc = NaN\<rparr>
           \<in> set (restandardize_var df_current mean_var std_var upl_var lol_var var_mean_t var_std_t)"
    by (simp add: restandardize_row_missing [OF assms(2)])
next
  show "\<forall>r' \<in> set (restandardize_var df_current mean_var std_var upl_var lol_var var_mean_t var_std_t).
            raw r' = None \<longrightarrow> flagtc r' = 0 \<and> zc r' = NaN \<and> tc r' = NaN \<and> wc r' = NaN"
  proof (intro ballI impI)
    fix r' assume "r' \<in> set (restandardize_var df_current mean_var std_var upl_var lol_var var_mean_t var_std_t)"
      and none: "raw r' = None"
    then obtain q where q: "q \<in> set df_current"
      "r' = restandardize_row mean_var std_var upl_var lol_var var_mean_t var_std_t q"
      by (auto simp: set_restandardize_var)
    with none have "raw q = None" by simp
    then show "flagtc r' = 0 \<and> zc r' = NaN \<and> tc r' = NaN \<and> wc r' = NaN"
      by (simp add: q(2) restandardize_row_missing)
  qed
qed

theorem missing_raw_stays_missing_witness:
  "\<lparr>provfs = 1, raw = None\<rparr> \<in> set [\<lparr>provfs = 3, raw = Some 1\<rparr>, \<lparr>provfs = 1, raw = None\<rparr>, \<lparr>provfs = 2, raw = Some 9\<rparr>] \<and>
   raw \<lparr>provfs = 1, raw = None\<rparr> = None \<and>
   \<lparr>provfs = 1, raw = None, zc = NaN, tc = NaN, flagtc = 0, wc = NaN\<rparr>
     \<in> set (restandardize_var [\<lparr>provfs = 3, raw = Some 1\<rparr>, \<lparr>provfs = 1, raw = None\<rparr>, \<lparr>provfs = 2, raw = Some 9\<rparr>]
              (Fin 2) (Fin 1) (Fin 2) (Fin (- 2)) (Fin 0) (Fin 1))"
  using missing_raw_stays_missing
    [of "\<lparr>provfs = 1, raw = None\<rparr>" "[\<lparr>provfs = 3, raw = Some 1\<rparr>, \<lparr>provfs = 1, raw = None\<rparr>, \<lparr>provfs = 2, raw = Some 9\<rparr>]"
        "Fin 2" "Fin 1" "Fin 2" "Fin (- 2)" "Fin 0" "Fin 1"]
  by simp

section \<open>Winsorization: a series with a NaN never converges\<close>

lemma foldl_fadd_NaN [simp]: "foldl fadd NaN xs = NaN"
  by (induction xs) simp_all

lemma np_sum_NaN: "NaN \<in> set t \<Longrightarrow> np_sum t = NaN"
proof -
  have "NaN \<in> set t \<Longrightarrow> foldl fadd acc t = NaN" for acc
  proof (induction t arbitrary: acc)
    case Nil then show ?case by simp
  next
    case (Cons x t)
    then show ?case by (cases "x = NaN") auto
  qed
  then show "NaN \<in> set t \<Longrightarrow> ?thesis" by (simp add: np_sum_def)
qed

lemma np_mean_NaN: "NaN \<in> set t \<Longrightarrow> np_mean t = NaN"
  by (simp add: np_mean_def np_sum_NaN)

lemma np_std_NaN: "NaN \<in> set t \<Longrightarrow> np_std t = NaN"
proof -
  assume h: "NaN \<in> set t"
  then have "NaN \<in> set (map (\<lambda>x. fsq (fsub x (np_mean t))) t)"
    by (auto simp: np_mean_NaN image_iff)
  then show ?thesis by (simp add: np_std_def np_mean_NaN)
qed

lemma rescale_NaN: "rescale NaN s t = replicate (length t) NaN"
  by (induction t) (simp_all add: rescale_def)

lemma foldl_fmax_NaN [simp]: "foldl fmax NaN xs = NaN"
  by (induction xs) (simp_all add: fmax_def)
lemma foldl_fmin_NaN [simp]: "foldl fmin NaN xs = NaN"
  by (induction xs) (simp_all add: fmin_def)

lemma np_max_replicate_NaN: "0 < k \<Longrightarrow> np_max (replicate k NaN) = Inr NaN"
  by (cases k) (simp_all add: np_max_def)
lemma np_min_replicate_NaN: "0 < k \<Longrightarrow> np_min (replicate k NaN) = Inr NaN"
  by (cases k) (simp_all add: np_min_def)

lemma clip_keeps_NaN: "NaN \<in> set t \<Longrightarrow> NaN \<in> set (map (clip u l) t)"
  by (force simp: image_iff)

lemma nan_stuck:
  "NaN \<in> set t \<Longrightarrow>
   winsor_loop (Suc n) i t u l =
     Inr (i + n, \<lparr>w_var = replicate (length t) NaN, mean_t = NaN, std_t = NaN, upl = u, lol = l\<rparr>)"
proof (induction n arbitrary: i t)
  case 0
  have t: "NaN \<in> set (map (clip u l) t)" using 0 by (rule clip_keeps_NaN)
  have "0 < length t" using 0 by (cases t) auto
  then show ?case
    by (simp add: Let_def bind_def np_mean_NaN [OF t] np_std_NaN [OF t] rescale_NaN
        np_max_replicate_NaN np_min_replicate_NaN del: set_map)
next
  case (Suc n)
  have t: "NaN \<in> set (map (clip u l) t)" using Suc.prems by (rule clip_keeps_NaN)
  have "0 < length t" using Suc.prems by (cases t) auto
  then have "winsor_loop (Suc (Suc n)) i t u l = winsor_loop (Suc n) (i + 1) (map (clip u l) t) u l"
    by (simp add: Let_def bind_def np_mean_NaN [OF t] np_std_NaN [OF t] rescale_NaN
        np_max_replicate_NaN np_min_replicate_NaN del: set_map winsor_loop.simps(2))
       (simp add: Let_def bind_def np_mean_NaN [OF t] np_std_NaN [OF t] rescale_NaN
        np_max_replicate_NaN np_min_replicate_NaN del: set_map)
  then show ?case using Suc.IH [OF t, of "i + 1"] by simp
qed

section \<open>Winsorization: what the loop returns\<close>

lemma winsor_loop_cases:
  assumes "winsor_loop (Suc n) i t u l = Inr (i', r)"
  shows "(within_threshold (rescale (np_mean (map (clip u l) t)) (np_std (map (clip u l) t)) (map (clip u l) t)) \<and>
          i' = i \<and>
          r = \<lparr>w_var = rescale (np_mean (map (clip u l) t)) (np_std (map (clip u l) t)) (map (clip u l) t),
               mean_t = np_mean (map (clip u l) t), std_t = np_std (map (clip u l) t), upl = u, lol = l\<rparr>) \<or>
         (\<exists>u' l'. (u' = u \<or> u' = u - step) \<and> (l' = l \<or> l' = l + step) \<and>
            (if n = 0
             then i' = i \<and> upl r = u' \<and> lol r = l'
             else winsor_loop n (i + 1) (map (clip u l) t) u' l' = Inr (i', r)))"
  using assms
  by (auto simp: Let_def bind_def within_threshold_def split: sum.splits if_splits)

lemma winsor_loop_index:
  "winsor_loop n i t u l = Inr (i', r) \<Longrightarrow>
   i \<le> i' \<and> i' < i + n \<and> (within_threshold (w_var r) \<or> i' + 1 = i + n)"
proof (induction n arbitrary: i t u l)
  case 0
  then show ?case by simp
next
  case (Suc n)
  define t' where "t' = map (clip u l) t"
  define w where "w = rescale (np_mean t') (np_std t') t'"
  from winsor_loop_cases [OF Suc.prems]
  consider (brk) "within_threshold w" "i' = i"
      "r = \<lparr>w_var = w, mean_t = np_mean t', std_t = np_std t', upl = u, lol = l\<rparr>"
    | (cont) u' l' where
      "if n = 0 then i' = i \<and> upl r = u' \<and> lol r = l'
       else winsor_loop n (i + 1) t' u' l' = Inr (i', r)"
    unfolding t'_def w_def by blast
  then show ?case
  proof cases
    case brk
    then show ?thesis by simp
  next
    case cont
    show ?thesis
    proof (cases "n = 0")
      case True
      with cont show ?thesis by simp
    next
      case False
      with cont have "winsor_loop n (i + 1) t' u' l' = Inr (i', r)" by simp
      from Suc.IH [OF this] show ?thesis by auto
    qed
  qed
qed

lemma winsor_loop_limits:
  "winsor_loop n i t u l = Inr (i', r) \<Longrightarrow>
   \<exists>k j. k \<le> n \<and> j \<le> n \<and> upl r = u - real k * step \<and> lol r = l + real j * step"
proof (induction n arbitrary: i t u l)
  case 0
  then show ?case by simp
next
  case (Suc n)
  define t' where "t' = map (clip u l) t"
  define w where "w = rescale (np_mean t') (np_std t') t'"
  from winsor_loop_cases [OF Suc.prems]
  consider (brk) "r = \<lparr>w_var = w, mean_t = np_mean t', std_t = np_std t', upl = u, lol = l\<rparr>"
    | (cont) u' l' where "u' = u \<or> u' = u - step" "l' = l \<or> l' = l + step"
      "if n = 0 then i' = i \<and> upl r = u' \<and> lol r = l'
       else winsor_loop n (i + 1) t' u' l' = Inr (i', r)"
    unfolding t'_def w_def by blast
  then show ?case
  proof cases
    case brk
    then have "upl r = u - real 0 * step \<and> lol r = l + real 0 * step" by simp
    then show ?thesis by blast
  next
    case cont
    from cont(1) obtain a :: nat where a: "a \<le> 1" "u' = u - real a * step"
    proof
      assume "u' = u" then have "u' = u - real 0 * step" by simp
      then show ?thesis using that [of 0] by simp
    next
      assume "u' = u - step" then have "u' = u - real 1 * step" by simp
      then show ?thesis using that [of 1] by simp
    qed
    from cont(2) obtain b :: nat where b: "b \<le> 1" "l' = l + real b * step"
    proof
      assume "l' = l" then have "l' = l + real 0 * step" by simp
      then show ?thesis using that [of 0] by simp
    next
      assume "l' = l + step" then have "l' = l + real 1 * step" by simp
      then show ?thesis using that [of 1] by simp
    qed
    have "\<exists>k j. k \<le> n \<and> j \<le> n \<and> upl r = u' - real k * step \<and> lol r = l' + real j * step"
    proof (cases "n = 0")
      case True
      with cont(3) have "upl r = u' - real 0 * step \<and> lol r = l' + real 0 * step" by simp
      then show ?thesis by blast
    next
      case False
      with cont(3) have "winsor_loop n (i + 1) t' u' l' = Inr (i', r)" by simp
      from Suc.IH [OF this] show ?thesis .
    qed
    then obtain k j where kj: "k \<le> n" "j \<le> n" "upl r = u' - real k * step" "lol r = l' + real j * step"
      by blast
    have "a + k \<le> Suc n \<and> b + j \<le> Suc n \<and> upl r = u - real (a + k) * step \<and> lol r = l + real (b + j) * step"
      using a b kj by (simp add: algebra_simps)
    then show ?thesis by blast
  qed
qed

lemma winsor_loop_empty: "winsor_loop (Suc n) i [] u l = Inl ValueError"
  by (simp add: Let_def bind_def rescale_def np_max_def)

lemma np_max_nonempty: "t \<noteq> [] \<Longrightarrow> \<exists>a. np_max t = Inr a"
  by (cases t) (simp_all add: np_max_def)
lemma np_min_nonempty: "t \<noteq> [] \<Longrightarrow> \<exists>a. np_min t = Inr a"
  by (cases t) (simp_all add: np_min_def)

lemma winsor_loop_returns:
  "t \<noteq> [] \<Longrightarrow> \<exists>i' r. winsor_loop (Suc n) i t u l = Inr (i', r)"
proof (induction n arbitrary: i t u l)
  case 0
  have "rescale (np_mean (map (clip u l) t)) (np_std (map (clip u l) t)) (map (clip u l) t) \<noteq> []"
    using 0 by (simp add: rescale_def)
  from np_max_nonempty [OF this] np_min_nonempty [OF this]
  show ?case by (auto simp: Let_def bind_def)
next
  case (Suc n)
  have ne: "map (clip u l) t \<noteq> []" using Suc.prems by simp
  then have "rescale (np_mean (map (clip u l) t)) (np_std (map (clip u l) t)) (map (clip u l) t) \<noteq> []"
    by (simp add: rescale_def)
  from np_max_nonempty [OF this] np_min_nonempty [OF this]
  obtain a b where ab: "np_max (rescale (np_mean (map (clip u l) t)) (np_std (map (clip u l) t)) (map (clip u l) t)) = Inr a"
     "np_min (rescale (np_mean (map (clip u l) t)) (np_std (map (clip u l) t)) (map (clip u l) t)) = Inr b" by blast
  show ?case
    using Suc.IH [OF ne] ab
    by (subst winsor_loop.simps(2)) (simp add: Let_def bind_def del: winsor_loop.simps(2))
qed

section \<open>Reductions over finite values\<close>

lemma foldl_fadd_Fin: "foldl fadd (Fin s) (map Fin xs) = Fin (s + sum_list xs)"
  by (induction xs arbitrary: s) (simp_all add: add.assoc)

lemma np_sum_Fin: "np_sum (map Fin xs) = Fin (sum_list xs)"
  by (simp add: np_sum_def foldl_fadd_Fin)

lemma np_mean_Fin:
  "xs \<noteq> [] \<Longrightarrow> np_mean (map Fin xs) = Fin (sum_list xs / real (length xs))"
  by (simp add: np_mean_def np_sum_Fin)

lemma np_std_Fin:
  assumes "xs \<noteq> []"
  shows "np_std (map Fin xs) =
     Fin (sqrt (sum_list (map (\<lambda>x. (x - sum_list xs / real (length xs)) * (x - sum_list xs / real (length xs))) xs)
                / real (length xs)))"
proof -
  define m where "m = sum_list xs / real (length xs)"
  define ds where "ds = map (\<lambda>x. (x - m) * (x - m)) xs"
  have sq: "map (\<lambda>x. fsq (fsub x (Fin m))) (map Fin xs) = map Fin ds"
    by (simp add: ds_def)
  have ne: "ds \<noteq> []" using assms by (simp add: ds_def)
  have len: "length ds = length xs" by (simp add: ds_def)
  have "0 \<le> sum_list ds" unfolding ds_def by (rule sum_list_nonneg) auto
  then have nn: "\<not> sum_list ds / real (length xs) < 0" by (simp add: not_less)
  have "np_std (map Fin xs) = fsqrt (np_mean (map Fin ds))"
    by (simp only: np_std_def np_mean_Fin [OF assms] sq m_def [symmetric])
  also have "\<dots> = Fin (sqrt (sum_list ds / real (length xs)))"
    using nn by (simp only: np_mean_Fin [OF ne] len fsqrt.simps if_False)
  finally show ?thesis by (simp only: ds_def m_def)
qed

lemma np_mean_replicate: "0 < k \<Longrightarrow> np_mean (replicate k (Fin c)) = Fin c"
proof -
  assume k: "0 < k"
  have "replicate k (Fin c) = map Fin (replicate k c)" by simp
  then show ?thesis using k np_mean_Fin [of "replicate k c"]
    by (simp add: sum_list_replicate)
qed

lemma np_std_replicate: "0 < k \<Longrightarrow> np_std (replicate k (Fin c)) = Fin 0"
proof -
  assume k: "0 < k"
  have "map (\<lambda>x. fsq (fsub x (Fin c))) (replicate k (Fin c)) = replicate k (Fin 0)"
    by simp
  then show ?thesis using k by (simp add: np_std_def np_mean_replicate)
qed

lemma rescale_replicate: "rescale (Fin c) (Fin 0) (replicate k (Fin c)) = replicate k NaN"
  by (simp add: rescale_def)

lemma const_stuck:
  assumes "map (clip u l) t = replicate k (Fin c)" "0 < k" "l \<le> c" "c \<le> u"
  shows "winsor_loop (Suc n) i t u l =
     Inr (i + n, \<lparr>w_var = replicate k NaN, mean_t = Fin c, std_t = Fin 0, upl = u, lol = l\<rparr>)"
  using assms(1)
proof (induction n arbitrary: i t)
  case 0
  then show ?case
    using assms(2)
    by (simp add: Let_def bind_def np_mean_replicate np_std_replicate rescale_replicate
        np_max_replicate_NaN np_min_replicate_NaN)
next
  case (Suc n)
  have stay: "map (clip u l) (replicate k (Fin c)) = replicate k (Fin c)"
    using assms(3,4) by (simp add: clip_def np_where_def)
  have "winsor_loop (Suc (Suc n)) i t u l = winsor_loop (Suc n) (i + 1) (replicate k (Fin c)) u l"
    using assms(2) Suc.prems
    by (subst winsor_loop.simps(2))
       (simp add: Let_def bind_def np_mean_replicate np_std_replicate rescale_replicate
        np_max_replicate_NaN np_min_replicate_NaN del: winsor_loop.simps(2))
  then show ?case using Suc.IH [OF stay, of "i + 1"] by simp
qed

section \<open>Winsorization of nine equal values and one outlier\<close>

lemma np_mean_nine_and_one: "np_mean (nine_and_one x y) = Fin ((9 * x + y) / 10)"
  unfolding nine_and_one_def by (subst np_mean_Fin) simp_all

lemma np_std_nine_and_one:
  assumes "x \<le> y"
  shows "np_std (nine_and_one x y) = Fin (3 * (y - x) / 10)"
proof -
  have "sum_list (map (\<lambda>z. (z - sum_list [x, x, x, x, x, x, x, x, x, y] / real (length [x, x, x, x, x, x, x, x, x, y]))
                        * (z - sum_list [x, x, x, x, x, x, x, x, x, y] / real (length [x, x, x, x, x, x, x, x, x, y])))
                 [x, x, x, x, x, x, x, x, x, y]) / real (length [x, x, x, x, x, x, x, x, x, y])
        = (3 * (y - x) / 10)\<^sup>2"
    by (simp add: power2_eq_square field_simps)
  moreover have "0 \<le> 3 * (y - x) / 10" using assms by simp
  ultimately show ?thesis
    unfolding nine_and_one_def
    by (subst np_std_Fin) (simp_all only: real_sqrt_abs abs_of_nonneg list.simps not_False_eq_True)
qed

lemma rescale_nine_and_one:
  assumes "x < y"
  shows "rescale (Fin ((9 * x + y) / 10)) (Fin (3 * (y - x) / 10)) (nine_and_one x y)
         = nine_and_one (- 1 / 3) 3"
proof -
  have d: "y - x \<noteq> 0" using assms by simp
  have a: "(x - (9 * x + y) / 10) / (3 * (y - x) / 10) = - 1 / 3"
    using d by (simp add: field_simps)
  have b: "(y - (9 * x + y) / 10) / (3 * (y - x) / 10) = 3"
    using d by (simp add: field_simps)
  have nz: "3 * (y - x) / 10 \<noteq> 0" using d by simp
  have fa: "fdiv (fsub (Fin x) (Fin ((9 * x + y) / 10))) (Fin (3 * (y - x) / 10)) = Fin (- 1 / 3)"
    by (simp only: fsub_Fin fdiv.simps nz if_False a)
  have fb: "fdiv (fsub (Fin y) (Fin ((9 * x + y) / 10))) (Fin (3 * (y - x) / 10)) = Fin 3"
    by (simp only: fsub_Fin fdiv.simps nz if_False b)
  show ?thesis
    unfolding rescale_def nine_and_one_def by (simp only: list.map fa fb)
qed

lemma np_max_min_nine_and_one:
  "x \<le> y \<Longrightarrow> np_max (nine_and_one x y) = Inr (Fin y)"
  "x \<le> y \<Longrightarrow> np_min (nine_and_one x y) = Inr (Fin x)"
  by (simp_all add: nine_and_one_def np_max_def np_min_def fmax_def fmin_def)

lemma clip_nine_and_one:
  assumes "l < x" "x < u" "u \<le> v"
  shows "map (clip u l) (nine_and_one x v) = nine_and_one x u"
  using assms by (auto simp: nine_and_one_def clip_def np_where_def)

lemma winsor_loop_unfold:
  assumes "map (clip u l) t = t'" "np_mean t' = m" "np_std t' = s" "rescale m s t' = w"
    "np_max w = Inr a" "np_min w = Inr b"
  shows "winsor_loop (Suc n) i t u l =
     (if fle a (Fin threshold) \<and> fge b (Fin (- threshold))
      then Inr (i, \<lparr>w_var = w, mean_t = m, std_t = s, upl = u, lol = l\<rparr>)
      else if n = 0
      then Inr (i, \<lparr>w_var = w, mean_t = m, std_t = s,
                    upl = (if fgt a (Fin threshold) then u - step else u),
                    lol = (if flt b (Fin (- threshold)) then l + step else l)\<rparr>)
      else winsor_loop n (i + 1) t'
             (if fgt a (Fin threshold) then u - step else u)
             (if flt b (Fin (- threshold)) then l + step else l))"
  by (simp add: Let_def bind_def assms del: winsor_loop.simps(2) add: winsor_loop.simps(2) [of n i t u l])

lemma nine_and_one_step:
  assumes "l < x" "x < u" "u \<le> v"
  shows "winsor_loop (Suc n) i (nine_and_one x v) u l =
     (if n = 0
      then Inr (i, \<lparr>w_var = nine_and_one (- 1 / 3) 3, mean_t = Fin ((9 * x + u) / 10),
                    std_t = Fin (3 * (u - x) / 10), upl = u - step, lol = l\<rparr>)
      else winsor_loop n (i + 1) (nine_and_one x u) (u - step) l)"
proof -
  have le: "x \<le> u" using assms by simp
  have le': "- 1 / 3 \<le> (3::real)" by simp
  show ?thesis
    by (subst winsor_loop_unfold [OF clip_nine_and_one [OF assms] np_mean_nine_and_one
          np_std_nine_and_one [OF le] rescale_nine_and_one [OF assms(2)]
          np_max_min_nine_and_one(1) [OF le'] np_max_min_nine_and_one(2) [OF le']])
       (simp add: threshold_def)
qed

lemma nine_and_one_steps:
  assumes "l < x" "x < u - real k * step" "u \<le> v" "0 < n"
  shows "winsor_loop (Suc k + n) i (nine_and_one x v) u l =
         winsor_loop n (i + Suc k) (nine_and_one x (u - real k * step)) (u - real (Suc k) * step) l"
  using assms(2,3)
proof (induction k arbitrary: i u v)
  case 0
  then have "x < u" by simp
  from nine_and_one_step [OF assms(1) this 0(2), of n i] assms(4)
  show ?case by simp
next
  case (Suc k)
  have st: "0 < step" by (simp add: step_def)
  have "0 \<le> real (Suc k) * step" using st by simp
  with Suc.prems have xu: "x < u" by linarith
  have 1: "winsor_loop (Suc (Suc k) + n) i (nine_and_one x v) u l =
           winsor_loop (Suc k + n) (i + 1) (nine_and_one x u) (u - step) l"
    using nine_and_one_step [OF assms(1) xu Suc.prems(2), of "Suc k + n" i] by simp
  have 2: "x < (u - step) - real k * step" using Suc.prems(1) by (simp add: algebra_simps)
  have 3: "u - step \<le> u" using st by simp
  from Suc.IH [OF 2 3, of "i + 1"] 1 show ?case by (simp add: algebra_simps)
qed

section \<open>Ten facilities, one outlier: the loop runs to the cap\<close>

text \<open>
  The raw values are nine times 0 and once 1.  The z-scores are nine times
  \<open>- sqrt (1/10)\<close> and once \<open>9 * sqrt (1/10)\<close>; while the upper limit is above the
  nine equal values the rescaled maximum is 3, so the upper limit goes down by one step
  in each of the first 2897 iterations, to \<open>- 0.317\<close>.  In iteration 2898 every value
  is clipped to that limit, the series is constant, its standard deviation is 0 and the
  rescaled series is NaN; nothing changes any more until iteration 10000.
\<close>

lemma sqrt_tenth_bounds: "316 / 1000 < sqrt (1 / 10)" "sqrt (1 / 10) < 317 / 1000"
proof -
  have "(316 / 1000)\<^sup>2 < (1 / 10 :: real)" by (simp add: power2_eq_square)
  then show "316 / 1000 < sqrt (1 / 10)" by (rule real_less_rsqrt)
  have "(1 / 10 :: real) < (317 / 1000)\<^sup>2" by (simp add: power2_eq_square)
  then show "sqrt (1 / 10) < 317 / 1000" by (intro real_less_lsqrt) simp_all
qed

lemma div_sqrt_self: "0 < c \<Longrightarrow> c / sqrt c = sqrt c"
  by (metis real_div_sqrt less_eq_real_def)

lemma zscores_ten:
  "zscores [Some 0, Some 0, Some 0, Some 0, Some 0, Some 0, Some 0, Some 0, Some 0, Some 1]
   = nine_and_one (- sqrt (1 / 10)) (9 * sqrt (1 / 10))"
proof -
  have m: "pd_mean [Some 0, Some 0, Some 0, Some 0, Some 0, Some 0, Some 0, Some 0, Some 0, Some 1] = Fin (1 / 10)"
    by (simp add: pd_mean_def)
  have s: "pd_std [Some 0, Some 0, Some 0, Some 0, Some 0, Some 0, Some 0, Some 0, Some 0, Some 1] = Fin (sqrt (1 / 10))"
    by (simp add: pd_std_def Let_def)
  have nz: "sqrt (1 / 10 :: real) \<noteq> 0" by simp
  have d: "(1 / 10) / sqrt (1 / 10 :: real) = sqrt (1 / 10)" by (rule div_sqrt_self) simp
  have a: "(0 - 1 / 10) / sqrt (1 / 10 :: real) = - sqrt (1 / 10)"
    using d by (simp add: minus_divide_left [symmetric] del: real_sqrt_divide)
  have "(1 - 1 / 10) / sqrt (1 / 10 :: real) = 9 * ((1 / 10) / sqrt (1 / 10))"
    by (simp del: real_sqrt_divide)
  then have b: "(1 - 1 / 10) / sqrt (1 / 10 :: real) = 9 * sqrt (1 / 10)"
    by (simp only: d)
  have fa: "fdiv (fsub (Fin 0) (Fin (1 / 10))) (Fin (sqrt (1 / 10))) = Fin (- sqrt (1 / 10))"
    by (simp only: fsub_Fin fdiv.simps nz if_False a)
  have fb: "fdiv (fsub (Fin 1) (Fin (1 / 10))) (Fin (sqrt (1 / 10))) = Fin (9 * sqrt (1 / 10))"
    by (simp only: fsub_Fin fdiv.simps nz if_False b)
  show ?thesis
    unfolding zscores_def m s rescale_def nine_and_one_def
    by (simp only: list.map of_cell.simps fa fb)
qed

lemma winsorize_ten:
  "winsorize [Some 0, Some 0, Some 0, Some 0, Some 0, Some 0, Some 0, Some 0, Some 0, Some 1]
   = Inr (10000, \<lparr>w_var = replicate 10 NaN, mean_t = Fin (- 317 / 1000), std_t = Fin 0,
                   upl = - 317 / 1000, lol = - threshold\<rparr>)"
proof -
  define x :: real where "x = - sqrt (1 / 10)"
  define v :: real where "v = 9 * sqrt (1 / 10)"
  have x: "- 317 / 1000 < x" "x < - 316 / 1000"
    using sqrt_tenth_bounds by (simp_all add: x_def)
  have v: "threshold \<le> v"
    using sqrt_tenth_bounds(1) by (simp add: v_def threshold_def)
  have 1: "- threshold < x" using x(1) by (simp add: threshold_def)
  have 2: "x < threshold - real (2896::nat) * step"
    using x(2) by (simp add: threshold_def step_def)
  have u: "threshold - real (Suc 2896) * step = - 317 / 1000"
    "threshold - real (2896::nat) * step = - 316 / 1000"
    by (simp_all add: threshold_def step_def)
  have "winsor_loop (Suc 2896 + 7103) 1 (nine_and_one x v) threshold (- threshold) =
        winsor_loop 7103 (1 + Suc 2896) (nine_and_one x (- 316 / 1000)) (- 317 / 1000) (- threshold)"
    using nine_and_one_steps [OF 1 2 v, of 7103 1] by (simp only: u)
  moreover have "map (clip (- 317 / 1000) (- threshold)) (nine_and_one x (- 316 / 1000))
        = replicate 10 (Fin (- 317 / 1000))"
    using x(1) by (simp add: nine_and_one_def clip_def np_where_def eval_nat_numeral)
  from const_stuck [OF this, of 7102 "1 + Suc 2896"]
  have "winsor_loop (Suc 7102) (1 + Suc 2896) (nine_and_one x (- 316 / 1000)) (- 317 / 1000) (- threshold)
        = Inr (1 + Suc 2896 + 7102, \<lparr>w_var = replicate 10 NaN, mean_t = Fin (- 317 / 1000),
                 std_t = Fin 0, upl = - 317 / 1000, lol = - threshold\<rparr>)"
    by (simp add: threshold_def)
  ultimately have "winsor_loop 10000 1 (nine_and_one x v) threshold (- threshold)
        = Inr (10000, \<lparr>w_var = replicate 10 NaN, mean_t = Fin (- 317 / 1000),
                 std_t = Fin 0, upl = - 317 / 1000, lol = - threshold\<rparr>)"
    by simp
  then show ?thesis by (simp only: winsorize_def zscores_ten x_def v_def)
qed

lemma not_within_replicate_NaN: "\<not> within_threshold (replicate 10 NaN)"
  by (simp add: within_threshold_def np_max_replicate_NaN np_min_replicate_NaN)

section \<open>Three facilities: the loop stops in its first iteration\<close>

lemma winsorize_three:
  "winsorize [Some 0, Some 1, Some 2]
   = Inr (1, \<lparr>w_var = [Fin (- (1 / sqrt (2 / 3))), Fin 0, Fin (1 / sqrt (2 / 3))],
              mean_t = Fin 0, std_t = Fin (sqrt (2 / 3)),
              upl = threshold, lol = - threshold\<rparr>)"
  and within_three:
  "within_threshold [Fin (- (1 / sqrt (2 / 3))), Fin 0, Fin (1 / sqrt (2 / 3))]"
proof -
  define s :: real where "s = sqrt (2 / 3)"
  have "(1 / 2)\<^sup>2 \<le> (2 / 3 :: real)" by (simp add: power2_eq_square)
  then have half: "1 / 2 \<le> s" unfolding s_def by (rule real_le_rsqrt)
  then have pos: "0 < s" by simp
  have inv: "1 / s \<le> 2" using half pos by (simp add: field_simps)
  have inv0: "0 < 1 / s" using pos by simp
  have z: "zscores [Some 0, Some 1, Some 2] = map Fin [- 1, 0, 1]"
    by (simp add: zscores_def pd_mean_def pd_std_def Let_def rescale_def)
  have c: "map (clip threshold (- threshold)) (map Fin [- 1, 0, 1]) = map Fin [- 1, 0, 1]"
    by (simp add: clip_def np_where_def threshold_def)
  have m: "np_mean (map Fin [- 1, 0, 1]) = Fin 0"
    by (subst np_mean_Fin) simp_all
  have sd: "np_std (map Fin [- 1, 0, 1]) = Fin s"
    by (subst np_std_Fin) (simp_all add: s_def del: real_sqrt_divide)
  have r: "rescale (Fin 0) (Fin s) (map Fin [- 1, 0, 1]) = [Fin (- (1 / s)), Fin 0, Fin (1 / s)]"
    using pos by (simp add: rescale_def)
  have mx: "np_max [Fin (- (1 / s)), Fin 0, Fin (1 / s)] = Inr (Fin (1 / s))"
    using inv0 by (simp add: np_max_def fmax_def)
  have mn: "np_min [Fin (- (1 / s)), Fin 0, Fin (1 / s)] = Inr (Fin (- (1 / s)))"
    using inv0 by (simp add: np_min_def fmin_def)
  have le: "fle (Fin (1 / s)) (Fin threshold)" "fge (Fin (- (1 / s))) (Fin (- threshold))"
    using inv by (simp_all add: threshold_def)
  have "winsor_loop (Suc 9999) 1 (map Fin [- 1, 0, 1]) threshold (- threshold)
        = Inr (1, \<lparr>w_var = [Fin (- (1 / s)), Fin 0, Fin (1 / s)], mean_t = Fin 0, std_t = Fin s,
                   upl = threshold, lol = - threshold\<rparr>)"
    by (subst winsor_loop_unfold [OF c m sd r mx mn]) (simp only: le simp_thms if_True)
  then show "winsorize [Some 0, Some 1, Some 2]
   = Inr (1, \<lparr>w_var = [Fin (- (1 / sqrt (2 / 3))), Fin 0, Fin (1 / sqrt (2 / 3))],
              mean_t = Fin 0, std_t = Fin (sqrt (2 / 3)),
              upl = threshold, lol = - threshold\<rparr>)"
    by (simp add: winsorize_def z s_def del: real_sqrt_divide)
  show "within_threshold [Fin (- (1 / sqrt (2 / 3))), Fin 0, Fin (1 / sqrt (2 / 3))]"
    using le by (simp only: within_threshold_def mx mn s_def [symmetric] prod.case sum.case simp_thms)
qed

section \<open>Winsorization: what is stored when the loop ends\<close>

lemma winsorize_returns: "col \<noteq> [] \<Longrightarrow> \<exists>i r. winsorize col = Inr (i, r)"
  using winsor_loop_returns [of "zscores col" 9999 1 threshold "- threshold"]
  by (simp add: winsorize_def zscores_def rescale_def)

lemma winsorize_empty: "winsorize [] = Inl ValueError"
  using winsor_loop_empty [of 9999 1 threshold "- threshold"]
  by (simp add: winsorize_def zscores_def rescale_def)

text \<open>
  C3 (as the code has it).  When \<open>winsorize\<close> returns, the loop was left in some
  iteration \<open>i\<close> between 1 and 10000, and either the stored rescaled series lies
  within the threshold on both sides, or \<open>i\<close> is 10000: the loop used up all its
  iterations, and what the last iteration computed is stored as it is.  The stored
  columns are the series, the two moments and the two limits; there is no column or
  error that tells the two outcomes apart.
\<close>

theorem winsorize_bounded_or_cap:
  "winsorize col = Inr (i, r) \<Longrightarrow>
   1 \<le> i \<and> i \<le> 10000 \<and> (within_threshold (w_var r) \<or> i = 10000)"
  using winsor_loop_index [of 10000 1 "zscores col" threshold "- threshold" i r]
  by (auto simp: winsorize_def)

theorem winsorize_bounded_or_cap_witness:
  "winsorize [Some 0, Some 1, Some 2]
     = Inr (1, \<lparr>w_var = [Fin (- (1 / sqrt (2 / 3))), Fin 0, Fin (1 / sqrt (2 / 3))],
                mean_t = Fin 0, std_t = Fin (sqrt (2 / 3)),
                upl = threshold, lol = - threshold\<rparr>) \<and>
   within_threshold [Fin (- (1 / sqrt (2 / 3))), Fin 0, Fin (1 / sqrt (2 / 3))]"
  using winsorize_bounded_or_cap [OF winsorize_three] winsorize_three
  by (simp del: real_sqrt_divide)

text \<open>
  C3, as stated.  Ten facilities with the raw values 0 (nine times) and 1:
  \<open>winsorize\<close> returns after
  iteration 10000 with a rescaled series of NaN, which is not within the threshold, and
  nothing in what it stores says so.
\<close>

theorem winsorize_cap_counterexample:
  "winsorize [Some 0, Some 0, Some 0, Some 0, Some 0, Some 0, Some 0, Some 0, Some 0, Some 1]
     = Inr (10000, \<lparr>w_var = replicate 10 NaN, mean_t = Fin (- 317 / 1000), std_t = Fin 0,
                     upl = - 317 / 1000, lol = - threshold\<rparr>) \<and>
   \<not> within_threshold (replicate 10 NaN)"
  using winsorize_ten not_within_replicate_NaN by simp

text \<open>
  C5 (as the code has it).  The limits start at the threshold and its negative and only
  move inward, by whole steps: the final upper limit is the threshold minus k steps and
  the final lower limit is the negative threshold plus j steps, with k and j at most
  10000.  So the upper limit is at most the threshold and the lower limit at least its
  negative; they need not be symmetric.
\<close>

theorem winsorize_limits_move_inward:
  "winsorize col = Inr (i, r) \<Longrightarrow>
   upl r \<le> threshold \<and> - threshold \<le> lol r \<and>
   (\<exists>k j. k \<le> 10000 \<and> j \<le> 10000 \<and>
      upl r = threshold - real k * step \<and> lol r = - threshold + real j * step)"
proof -
  assume "winsorize col = Inr (i, r)"
  then have "winsor_loop 10000 1 (zscores col) threshold (- threshold) = Inr (i, r)"
    by (simp add: winsorize_def)
  from winsor_loop_limits [OF this]
  obtain k j where kj: "k \<le> 10000" "j \<le> 10000"
    "upl r = threshold - real k * step" "lol r = - threshold + real j * step" by blast
  have "0 \<le> real k * step" "0 \<le> real j * step" by (simp_all add: step_def)
  with kj have "upl r \<le> threshold" "- threshold \<le> lol r" by simp_all
  with kj show ?thesis by blast
qed

theorem winsorize_limits_move_inward_witness:
  "winsorize [Some 0, Some 0, Some 0, Some 0, Some 0, Some 0, Some 0, Some 0, Some 0, Some 1]
     = Inr (10000, \<lparr>w_var = replicate 10 NaN, mean_t = Fin (- 317 / 1000), std_t = Fin 0,
                     upl = - 317 / 1000, lol = - threshold\<rparr>) \<and>
   - 317 / 1000 \<le> threshold \<and>
   - 317 / 1000 = threshold - real (2897::nat) * step \<and>
   - threshold \<noteq> - (- 317 / 1000 :: real)"
  using winsorize_limits_move_inward [OF winsorize_ten] winsorize_ten
  by (simp add: threshold_def step_def)

text \<open>
  C5, as stated.  For the ten facilities above the final upper limit is \<open>- 0.317\<close>: its magnitude is
  below the threshold, not at or beyond it.
\<close>

theorem winsorize_limit_magnitude_counterexample:
  "winsorize [Some 0, Some 0, Some 0, Some 0, Some 0, Some 0, Some 0, Some 0, Some 0, Some 1]
     = Inr (10000, \<lparr>w_var = replicate 10 NaN, mean_t = Fin (- 317 / 1000), std_t = Fin 0,
                     upl = - 317 / 1000, lol = - threshold\<rparr>) \<and>
   \<not> threshold \<le> \<bar>- 317 / 1000\<bar>"
  using winsorize_ten by (simp add: threshold_def)

lemma winsorize_with_computed: "winsorize col = winsorize_with (pd_mean col) (pd_std col) col"
  by (simp add: winsorize_def winsorize_with_def zscores_def)

lemma winsorize_with_returns:
  assumes "col \<noteq> []"
  shows "\<exists>i r. winsorize_with mean_val std_val col = Inr (i, r) \<and> 1 \<le> i \<and> i \<le> 10000"
proof -
  have "rescale mean_val std_val (map of_cell col) \<noteq> []"
    using assms by (simp add: rescale_def)
  from winsor_loop_returns [OF this, of 9999 1 threshold "- threshold"]
  obtain i r where r: "winsor_loop 10000 1 (rescale mean_val std_val (map of_cell col))
      threshold (- threshold) = Inr (i, r)"
    by auto
  from winsor_loop_index [OF r] have "1 \<le> i \<and> i \<le> 10000" by simp
  with r show ?thesis by (auto simp: winsorize_with_def)
qed

text \<open>
  Three facilities with the raw value 2: mean 2 and standard deviation 0, also in
  floating point.  Every z-score is the quotient of two zeros.
\<close>

lemma winsorize_with_constant_two:
  "winsorize_with (Fin 2) (Fin 0) [Some 2, Some 2, Some 2] =
     Inr (10000, \<lparr>w_var = [NaN, NaN, NaN], mean_t = NaN, std_t = NaN,
                  upl = threshold, lol = - threshold\<rparr>)"
proof -
  have z: "rescale (Fin 2) (Fin 0) (map of_cell [Some 2, Some 2, Some 2]) = [NaN, NaN, NaN]"
    by (simp add: rescale_def)
  have "NaN \<in> set [NaN, NaN, NaN]" by simp
  from nan_stuck [OF this, of 9999 1 threshold "- threshold"]
  have "winsor_loop 10000 1 [NaN, NaN, NaN] threshold (- threshold) =
     Inr (10000, \<lparr>w_var = [NaN, NaN, NaN], mean_t = NaN, std_t = NaN,
                  upl = threshold, lol = - threshold\<rparr>)"
    by simp
  then show ?thesis by (simp only: winsorize_with_def z)
qed

text \<open>
  Three facilities with the raw value 0.1, and for the mean and the standard deviation
  the values that the floating-point computation returns: the mean is above 0.1 by
  \<open>e = 1 / 72057594037927936\<close> (2 to the power \<open>- 56\<close>) and the standard
  deviation is \<open>sqrt (3/2) * e\<close>.  Every z-score is
  \<open>- 1 / sqrt (3/2)\<close>, about \<open>- 0.8165\<close>; the clipped series is constant, so its
  standard deviation is 0 and the rescaled series is NaN in every iteration.
\<close>

lemma winsorize_with_constant_tenth:
  "winsorize_with (Fin (1 / 10 + 1 / 72057594037927936)) (Fin (sqrt (3 / 2) / 72057594037927936))
     [Some (1 / 10), Some (1 / 10), Some (1 / 10)] =
     Inr (10000, \<lparr>w_var = [NaN, NaN, NaN], mean_t = Fin (- (1 / sqrt (3 / 2))), std_t = Fin 0,
                  upl = threshold, lol = - threshold\<rparr>)"
proof -
  define e :: real where "e = 1 / 72057594037927936"
  define s :: real where "s = sqrt (3 / 2)"
  have e: "0 < e" by (simp add: e_def)
  have "1\<^sup>2 \<le> (3 / 2 :: real)" by simp
  then have s1: "1 \<le> s" unfolding s_def by (rule real_le_rsqrt)
  then have s0: "0 < s" by simp
  have nz: "s * e \<noteq> 0" using e s0 by simp
  have q: "(1 / 10 - (1 / 10 + e)) / (s * e) = - (1 / s)"
    using e s0 by (simp add: field_simps)
  have f: "fdiv (fsub (Fin (1 / 10)) (Fin (1 / 10 + e))) (Fin (s * e)) = Fin (- (1 / s))"
    by (simp only: fsub_Fin fdiv.simps nz if_False q)
  have r3: "replicate 3 x = [x, x, x]" for x :: fl by (simp add: eval_nat_numeral)
  have z: "rescale (Fin (1 / 10 + e)) (Fin (s * e)) (map of_cell [Some (1 / 10), Some (1 / 10), Some (1 / 10)])
      = replicate 3 (Fin (- (1 / s)))"
    unfolding rescale_def r3 by (simp only: list.map of_cell.simps f)
  have b: "1 / s \<le> 1" using s1 s0 by (simp add: field_simps)
  have p: "0 < 1 / s" using s0 by simp
  have lo: "- threshold \<le> - (1 / s)" and hi: "- (1 / s) \<le> threshold"
    using b p unfolding threshold_def by linarith+
  have c: "map (clip threshold (- threshold)) (replicate 3 (Fin (- (1 / s)))) = replicate 3 (Fin (- (1 / s)))"
    using lo hi by (simp add: clip_def np_where_def)
  have k: "0 < (3::nat)" by simp
  from const_stuck [OF c k lo hi, of 9999 1]
  have "winsor_loop 10000 1 (replicate 3 (Fin (- (1 / s)))) threshold (- threshold)
      = Inr (10000, \<lparr>w_var = [NaN, NaN, NaN], mean_t = Fin (- (1 / s)), std_t = Fin 0,
                  upl = threshold, lol = - threshold\<rparr>)"
    by (simp add: r3)
  then have "winsorize_with (Fin (1 / 10 + e)) (Fin (s * e)) [Some (1 / 10), Some (1 / 10), Some (1 / 10)]
      = Inr (10000, \<lparr>w_var = [NaN, NaN, NaN], mean_t = Fin (- (1 / s)), std_t = Fin 0,
                  upl = threshold, lol = - threshold\<rparr>)"
    by (simp only: winsorize_with_def z)
  then show ?thesis by (simp only: e_def s_def times_divide_eq_right mult_1_right)
qed

text \<open>
  C9 (as the code has it).  \<open>winsorize\<close> raises nothing on a measure without
  variance: on every non-empty column, and for every value the computation of the mean
  and of the standard deviation may return (a standard deviation of exactly 0 or a
  rounding residue alike), the loop is left in some iteration between 1 and 10000 and
  the series, moments and limits of that iteration are stored.  There is no check of the
  standard deviation and no error of the function's own.
\<close>

theorem zero_std_raises_nothing:
  assumes "col \<noteq> []"
  shows "(\<exists>i r. winsorize col = Inr (i, r) \<and> 1 \<le> i \<and> i \<le> 10000) \<and>
         (\<exists>i r. winsorize_with mean_val std_val col = Inr (i, r) \<and> 1 \<le> i \<and> i \<le> 10000)"
  using winsorize_with_returns [OF assms, of "pd_mean col" "pd_std col"]
    winsorize_with_returns [OF assms, of mean_val std_val]
  by (simp only: winsorize_with_computed [symmetric] simp_thms)

text \<open>
  C9, on two columns without variance: the raw value 2 three times, where the computed
  standard deviation is exactly 0, and the raw value 0.1 three times with the mean and
  standard deviation that the floating-point computation returns.  Both runs end in
  iteration 10000 without an error.
\<close>

theorem zero_std_raises_nothing_witness:
  "[Some 2, Some 2, Some 2] \<noteq> ([] :: real option list) \<and>
   winsorize_with (Fin 2) (Fin 0) [Some 2, Some 2, Some 2] =
     Inr (10000, \<lparr>w_var = [NaN, NaN, NaN], mean_t = NaN, std_t = NaN,
                  upl = threshold, lol = - threshold\<rparr>) \<and>
   winsorize_with (Fin (1 / 10 + 1 / 72057594037927936)) (Fin (sqrt (3 / 2) / 72057594037927936))
     [Some (1 / 10), Some (1 / 10), Some (1 / 10)] =
     Inr (10000, \<lparr>w_var = [NaN, NaN, NaN], mean_t = Fin (- (1 / sqrt (3 / 2))), std_t = Fin 0,
                  upl = threshold, lol = - threshold\<rparr>)"
proof -
  have ne: "[Some 2, Some 2, Some 2] \<noteq> ([] :: real option list)" by simp
  from zero_std_raises_nothing [OF ne, of "Fin 2" "Fin 0"] ne
    winsorize_with_constant_two winsorize_with_constant_tenth
  show ?thesis by (simp only: simp_thms)
qed

text \<open>
  C9, as stated.  Two facilities with the raw value 2: the standard deviation is 0, and
  \<open>winsorize\<close> returns after iteration 10000 with NaN scores and NaN moments; no
  error is raised.
\<close>

theorem zero_std_no_error_counterexample:
  "winsorize [Some 2, Some 2] =
     Inr (10000, \<lparr>w_var = [NaN, NaN], mean_t = NaN, std_t = NaN,
                  upl = threshold, lol = - threshold\<rparr>)"
proof -
  have z: "zscores [Some 2, Some 2] = [NaN, NaN]"
    by (simp add: zscores_def rescale_def pd_mean_def pd_std_def Let_def)
  have "NaN \<in> set [NaN, NaN]" by simp
  from nan_stuck [OF this, of 9999 1 threshold "- threshold"]
  show ?thesis by (simp add: winsorize_def z)
qed

section \<open>Round trip: the current period on the baseline's own values\<close>

lemma clip_clip:
  assumes "l \<le> l'" "l' \<le> u'" "u' \<le> u"
  shows "clip u' l' (clip u l x) = clip u' l' x"
  using assms by (cases x) (auto simp: clip_def np_where_def fgt_def)

lemma clip_idem: "l \<le> u \<Longrightarrow> clip u l (clip u l x) = clip u l x"
  by (rule clip_clip) simp_all

text \<open>The flag and the two assignments of \<open>restandardize_var\<close> clip the z-score.\<close>

lemma tc_restandardize_row:
  "tc (restandardize_row m s (Fin u) (Fin l) mt st r) = clip u l (fdiv (fsub (of_cell (raw r)) m) s)"
  by (cases "fdiv (fsub (of_cell (raw r)) m) s")
     (auto simp: restandardize_row_def Let_def clip_def np_where_def notna_def fgt_def)

lemma wc_restandardize_row:
  "wc (restandardize_row m s (Fin u) (Fin l) mt st r) =
     fdiv (fsub (clip u l (fdiv (fsub (of_cell (raw r)) m) s)) mt) st"
  using tc_restandardize_row [of m s u l mt st r]
  by (simp add: restandardize_row_def Let_def)

text \<open>
  An iteration that neither stops the loop nor moves a limit (its rescaled maximum or
  minimum is NaN) is repeated unchanged until the iterations run out.
\<close>

lemma no_move_stuck:
  assumes lu: "l \<le> u"
    and t: "map (clip u l) t = t'"
    and rest: "np_mean t' = m" "np_std t' = s" "rescale m s t' = w"
      "np_max w = Inr a" "np_min w = Inr b"
    and no: "\<not> (fle a (Fin threshold) \<and> fge b (Fin (- threshold)))"
      "\<not> fgt a (Fin threshold)" "\<not> flt b (Fin (- threshold))"
  shows "winsor_loop (Suc n) i t u l =
     Inr (i + n, \<lparr>w_var = w, mean_t = m, std_t = s, upl = u, lol = l\<rparr>)"
  using t
proof (induction n arbitrary: i t)
  case 0
  from winsor_loop_unfold [OF 0 rest, of 0 i] no show ?case
    by (simp del: winsor_loop.simps)
next
  case (Suc n)
  have idem: "map (clip u l) t' = t'"
    unfolding Suc.prems [symmetric] by (simp add: clip_idem [OF lu])
  from winsor_loop_unfold [OF Suc.prems rest, of "Suc n" i] no
  have "winsor_loop (Suc (Suc n)) i t u l = winsor_loop (Suc n) (i + 1) t' u l"
    by (simp del: winsor_loop.simps)
  with Suc.IH [OF idem, of "i + 1"] show ?case by simp
qed

text \<open>
  The working series agrees with the z-scores under every clip that is at least as
  narrow as the current limits.
\<close>

lemma winsor_loop_single_clip:
  assumes "winsor_loop n i t u l = Inr (i', r)"
    and "lol r \<le> upl r"
    and "\<And>u' l'. l \<le> l' \<Longrightarrow> l' \<le> u' \<Longrightarrow> u' \<le> u \<Longrightarrow> map (clip u' l') t = map (clip u' l') z"
    and "u - l < real n * step"
  shows "w_var r = rescale (mean_t r) (std_t r) (map (clip (upl r) (lol r)) z)"
  using assms
proof (induction n arbitrary: i t u l)
  case 0
  then show ?case by simp
next
  case (Suc n)
  have st: "0 < step" by (simp add: step_def)
  from winsor_loop_limits [OF Suc.prems(1)] obtain k j where
    kj: "upl r = u - real k * step" "lol r = l + real j * step" by blast
  have "0 \<le> real k * step" "0 \<le> real j * step" using st by simp_all
  with kj Suc.prems(2) have lu: "l \<le> u" by linarith
  define t' where "t' = map (clip u l) t"
  define m where "m = np_mean t'"
  define s where "s = np_std t'"
  define w where "w = rescale m s t'"
  have tz: "t' = map (clip u l) z" unfolding t'_def using Suc.prems(3) [of l u] lu by simp
  have w_ne: "w \<noteq> []"
  proof
    assume "w = []"
    then have "t = []" by (simp add: w_def rescale_def t'_def)
    with Suc.prems(1) winsor_loop_empty [of n i u l] show False
      by (simp del: winsor_loop.simps)
  qed
  from np_max_nonempty [OF w_ne] np_min_nonempty [OF w_ne]
  obtain a b where ab: "np_max w = Inr a" "np_min w = Inr b" by blast
  note unf = winsor_loop_unfold [OF t'_def [symmetric] m_def [symmetric] s_def [symmetric]
      w_def [symmetric] ab, of n i]
  define u1 where "u1 = (if fgt a (Fin threshold) then u - step else u)"
  define l1 where "l1 = (if flt b (Fin (- threshold)) then l + step else l)"
  have inv': "map (clip u' l') t' = map (clip u' l') z"
    if "l1 \<le> l'" "l' \<le> u'" "u' \<le> u1" for u' l'
  proof -
    have 1: "l \<le> l'" using that(1) st by (simp add: l1_def split: if_splits)
    have 2: "u' \<le> u" using that(3) st by (simp add: u1_def split: if_splits)
    have "map (clip u' l') t' = map (clip u' l') t"
      unfolding t'_def by (simp add: clip_clip [OF 1 that(2) 2])
    with Suc.prems(3) [OF 1 that(2) 2] show ?thesis by simp
  qed
  show ?case
  proof (cases "fle a (Fin threshold) \<and> fge b (Fin (- threshold))")
    case True
    with unf Suc.prems(1) have "r = \<lparr>w_var = w, mean_t = m, std_t = s, upl = u, lol = l\<rparr>"
      by simp
    then show ?thesis by (simp add: w_def tz)
  next
    case False
    show ?thesis
    proof (cases "u1 = u \<and> l1 = l")
      case True
      have nomove: "\<not> fgt a (Fin threshold)" "\<not> flt b (Fin (- threshold))"
        using True st by (auto simp: u1_def l1_def split: if_splits)
      have "winsor_loop (Suc n) i t u l = Inr (i + n, \<lparr>w_var = w, mean_t = m, std_t = s, upl = u, lol = l\<rparr>)"
        by (rule no_move_stuck [OF lu t'_def [symmetric] m_def [symmetric] s_def [symmetric]
              w_def [symmetric] ab False nomove])
      with Suc.prems(1) have "r = \<lparr>w_var = w, mean_t = m, std_t = s, upl = u, lol = l\<rparr>"
        by simp
      then show ?thesis by (simp add: w_def tz)
    next
      case moved: False
      have gap: "u1 - l1 \<le> u - l - step"
        using moved st by (auto simp: u1_def l1_def split: if_splits)
      show ?thesis
      proof (cases "n = 0")
        case True
        with unf False Suc.prems(1) have "upl r = u1" "lol r = l1"
          by (auto simp: u1_def l1_def)
        with gap Suc.prems(2,4) True show ?thesis by simp
      next
        case n: False
        with unf False Suc.prems(1) have rec: "winsor_loop n (i + 1) t' u1 l1 = Inr (i', r)"
          by (simp add: u1_def l1_def)
        have fuel: "u1 - l1 < real n * step"
          using gap Suc.prems(4) by (simp add: algebra_simps)
        from Suc.IH [OF rec Suc.prems(2) inv' fuel] show ?thesis by simp
      qed
    qed
  qed
qed

lemma zscores_nth:
  "k < length col \<Longrightarrow>
   zscores col ! k = fdiv (fsub (of_cell (col ! k)) (pd_mean col)) (pd_std col)"
  by (simp add: zscores_def rescale_def)

lemma length_zscores: "length (zscores col) = length col"
  by (simp add: zscores_def rescale_def)

lemma winsorize_single_clip:
  assumes "winsorize col = Inr (i, r)" and "lol r \<le> upl r"
  shows "w_var r = rescale (mean_t r) (std_t r) (map (clip (upl r) (lol r)) (zscores col))"
proof (rule winsor_loop_single_clip)
  show "winsor_loop 10000 1 (zscores col) threshold (- threshold) = Inr (i, r)"
    using assms(1) by (simp add: winsorize_def)
  show "lol r \<le> upl r" by (rule assms(2))
  show "threshold - - threshold < real (10000::nat) * step"
    by (simp add: threshold_def step_def)
qed simp

text \<open>
  C4 (as the code has it).  Let the baseline run of \<open>winsorize\<close> on the raw values of
  the rows return with a lower limit that is not above the upper limit.  Then
  \<open>restandardize_var\<close>, given the same rows, the mean and standard deviation of their
  raw values and the stored limits and truncated moments, has for every row a result row
  whose re-standardized score is the stored winsorized score of that row.
\<close>

theorem round_trip_uncrossed:
  assumes "winsorize (map raw df) = Inr (i, r)" and "lol r \<le> upl r" and "k < length df"
  shows "restandardize_row (pd_mean (map raw df)) (pd_std (map raw df))
            (Fin (upl r)) (Fin (lol r)) (mean_t r) (std_t r) (df ! k)
           \<in> set (restandardize_var df (pd_mean (map raw df)) (pd_std (map raw df))
                    (Fin (upl r)) (Fin (lol r)) (mean_t r) (std_t r)) \<and>
         wc (restandardize_row (pd_mean (map raw df)) (pd_std (map raw df))
            (Fin (upl r)) (Fin (lol r)) (mean_t r) (std_t r) (df ! k)) = w_var r ! k \<and>
         length (w_var r) = length df"
proof (intro conjI)
  show "restandardize_row (pd_mean (map raw df)) (pd_std (map raw df))
            (Fin (upl r)) (Fin (lol r)) (mean_t r) (std_t r) (df ! k)
           \<in> set (restandardize_var df (pd_mean (map raw df)) (pd_std (map raw df))
                    (Fin (upl r)) (Fin (lol r)) (mean_t r) (std_t r))"
    using assms(3) by (simp add: set_restandardize_var)
  note w = winsorize_single_clip [OF assms(1,2)]
  show "length (w_var r) = length df"
    by (simp add: w rescale_def length_zscores)
  have "w_var r ! k = fdiv (fsub (clip (upl r) (lol r) (zscores (map raw df) ! k)) (mean_t r)) (std_t r)"
    using assms(3) by (simp add: w rescale_def length_zscores)
  also have "zscores (map raw df) ! k
      = fdiv (fsub (of_cell (raw (df ! k))) (pd_mean (map raw df))) (pd_std (map raw df))"
    using assms(3) by (simp add: zscores_nth)
  finally show "wc (restandardize_row (pd_mean (map raw df)) (pd_std (map raw df))
            (Fin (upl r)) (Fin (lol r)) (mean_t r) (std_t r) (df ! k)) = w_var r ! k"
    by (simp add: wc_restandardize_row)
qed

theorem round_trip_uncrossed_witness:
  "winsorize (map raw [\<lparr>provfs = 7, raw = Some 0\<rparr>, \<lparr>provfs = 3, raw = Some 1\<rparr>, \<lparr>provfs = 5, raw = Some 2\<rparr>])
     = Inr (1, \<lparr>w_var = [Fin (- (1 / sqrt (2 / 3))), Fin 0, Fin (1 / sqrt (2 / 3))],
                mean_t = Fin 0, std_t = Fin (sqrt (2 / 3)),
                upl = threshold, lol = - threshold\<rparr>) \<and>
   - threshold \<le> threshold \<and>
   wc (restandardize_row (Fin 1) (Fin 1) (Fin threshold) (Fin (- threshold)) (Fin 0)
         (Fin (sqrt (2 / 3))) \<lparr>provfs = 7, raw = Some 0\<rparr>) = Fin (- (1 / sqrt (2 / 3)))"
proof -
  have w: "winsorize (map raw [\<lparr>provfs = 7, raw = Some 0\<rparr>, \<lparr>provfs = 3, raw = Some 1\<rparr>, \<lparr>provfs = 5, raw = Some 2\<rparr>])
     = Inr (1, \<lparr>w_var = [Fin (- (1 / sqrt (2 / 3))), Fin 0, Fin (1 / sqrt (2 / 3))],
                mean_t = Fin 0, std_t = Fin (sqrt (2 / 3)),
                upl = threshold, lol = - threshold\<rparr>)"
    using winsorize_three by simp
  have le: "- threshold \<le> threshold" by (simp add: threshold_def)
  have m: "pd_mean [Some 0, Some 1, Some 2] = Fin 1" by (simp add: pd_mean_def)
  have s: "pd_std [Some 0, Some 1, Some 2] = Fin 1" by (simp add: pd_std_def Let_def)
  from round_trip_uncrossed [OF w, of 0] le m s w show ?thesis
    by (simp del: real_sqrt_divide)
qed

section \<open>Maximum and minimum of finite values\<close>

lemma fmax_Fin: "fmax (Fin a) (Fin b) = Fin (max a b)"
  by (simp add: fmax_def max_def)

lemma fmin_Fin: "fmin (Fin a) (Fin b) = Fin (min a b)"
  by (simp add: fmin_def min_def)

lemma foldl_fmax_Fin: "foldl fmax (Fin a) (map Fin xs) = Fin (fold max xs a)"
  by (induction xs arbitrary: a) (simp_all add: fmax_Fin max.commute)

lemma foldl_fmin_Fin: "foldl fmin (Fin a) (map Fin xs) = Fin (fold min xs a)"
  by (induction xs arbitrary: a) (simp_all add: fmin_Fin min.commute)

lemma np_max_Fin: "np_max (map Fin (x # xs)) = Inr (Fin (Max (set (x # xs))))"
  by (simp add: np_max_def foldl_fmax_Fin Max.set_eq_fold del: set_simps)

lemma np_min_Fin: "np_min (map Fin (x # xs)) = Inr (Fin (Min (set (x # xs))))"
  by (simp add: np_min_def foldl_fmin_Fin Min.set_eq_fold del: set_simps)

section \<open>Winsorization of sixteen values with an outlier on each side\<close>

lemma clip_below: "p \<le> l \<Longrightarrow> l < u \<Longrightarrow> clip u l (Fin p) = Fin l"
  by (auto simp: clip_def np_where_def)

lemma clip_inside: "l \<le> c \<Longrightarrow> c \<le> u \<Longrightarrow> clip u l (Fin c) = Fin c"
  by (auto simp: clip_def np_where_def)

lemma clip_above: "u \<le> q \<Longrightarrow> l \<le> u \<Longrightarrow> clip u l (Fin q) = Fin u"
  by (auto simp: clip_def np_where_def)

lemma clip_one_fourteen_one:
  assumes "p \<le> l" "l < c" "c < u" "u \<le> q"
  shows "map (clip u l) (one_fourteen_one p c q) = one_fourteen_one l c u"
proof -
  have lu: "l < u" using assms by simp
  have lc: "l \<le> c" "c \<le> u" using assms by simp_all
  show ?thesis
    unfolding one_fourteen_one_def
    by (simp only: list.map map_map o_def clip_below [OF assms(1) lu] clip_inside [OF lc]
        clip_above [OF assms(4) less_imp_le [OF lu]])
qed

lemma np_mean_one_fourteen_one:
  "np_mean (one_fourteen_one p c q) = Fin ((p + 14 * c + q) / 16)"
  unfolding one_fourteen_one_def by (subst np_mean_Fin) simp_all

lemma np_std_one_fourteen_one:
  "np_std (one_fourteen_one p c q) =
     Fin (sqrt ((15 * (c - p)\<^sup>2 + 15 * (q - c)\<^sup>2 + 2 * (c - p) * (q - c)) / 256))"
proof -
  define x where "x = c - p"
  define y where "y = q - c"
  define m where "m = sum_list [p, c, c, c, c, c, c, c, c, c, c, c, c, c, c, q]
                        / real (length [p, c, c, c, c, c, c, c, c, c, c, c, c, c, c, q])"
  have m: "m = (p + 14 * c + q) / 16" by (simp add: m_def)
  have a: "p - m = - (15 * x + y) / 16" by (simp add: m x_def y_def field_simps)
  have b: "c - m = (x - y) / 16" by (simp add: m x_def y_def field_simps)
  have d: "q - m = (x + 15 * y) / 16" by (simp add: m x_def y_def field_simps)
  have "sum_list (map (\<lambda>z. (z - m) * (z - m)) [p, c, c, c, c, c, c, c, c, c, c, c, c, c, c, q])
          = (p - m) * (p - m) + 14 * ((c - m) * (c - m)) + (q - m) * (q - m)"
    by simp
  also have "\<dots> = (15 * x\<^sup>2 + 15 * y\<^sup>2 + 2 * x * y) / 16"
    unfolding a b d by (simp add: power2_eq_square field_simps)
  finally have "sum_list (map (\<lambda>z. (z - m) * (z - m)) [p, c, c, c, c, c, c, c, c, c, c, c, c, c, c, q])
      / real (length [p, c, c, c, c, c, c, c, c, c, c, c, c, c, c, q])
      = (15 * x\<^sup>2 + 15 * y\<^sup>2 + 2 * x * y) / 256"
    by simp
  then have "np_std (map Fin [p, c, c, c, c, c, c, c, c, c, c, c, c, c, c, q])
      = Fin (sqrt ((15 * x\<^sup>2 + 15 * y\<^sup>2 + 2 * x * y) / 256))"
    by (subst np_std_Fin) (simp_all only: m_def [symmetric] list.simps not_False_eq_True)
  then show ?thesis by (simp only: one_fourteen_one_def x_def y_def)
qed

lemma rescale_one_fourteen_one:
  "s \<noteq> 0 \<Longrightarrow>
   rescale (Fin m) (Fin s) (one_fourteen_one p c q)
     = one_fourteen_one ((p - m) / s) ((c - m) / s) ((q - m) / s)"
  by (simp add: rescale_def one_fourteen_one_def)

lemma np_max_min_ascending:
  assumes "a \<le> b" "b \<le> d"
  shows "np_max (one_fourteen_one a b d) = Inr (Fin d)"
    and "np_min (one_fourteen_one a b d) = Inr (Fin a)"
proof -
  have s: "set [a, b, b, b, b, b, b, b, b, b, b, b, b, b, b, d] = {a, b, d}" by auto
  have "Max {a, b, d} = d" using assms by (simp add: max_def)
  then show "np_max (one_fourteen_one a b d) = Inr (Fin d)"
    unfolding one_fourteen_one_def by (simp only: np_max_Fin s)
  have "Min {a, b, d} = a" using assms by (simp add: min_def)
  then show "np_min (one_fourteen_one a b d) = Inr (Fin a)"
    unfolding one_fourteen_one_def by (simp only: np_min_Fin s)
qed

lemma np_max_min_first_high:
  assumes "b \<le> a"
  shows "np_max (one_fourteen_one a b b) = Inr (Fin a)"
    and "np_min (one_fourteen_one a b b) = Inr (Fin b)"
proof -
  have s: "set [a, b, b, b, b, b, b, b, b, b, b, b, b, b, b, b] = {a, b}" by auto
  have "Max {a, b} = a" using assms by (simp add: max_def)
  then show "np_max (one_fourteen_one a b b) = Inr (Fin a)"
    unfolding one_fourteen_one_def by (simp only: np_max_Fin s)
  have "Min {a, b} = b" using assms by (simp add: min_def)
  then show "np_min (one_fourteen_one a b b) = Inr (Fin b)"
    unfolding one_fourteen_one_def by (simp only: np_min_Fin s)
qed

lemma threshold_nonneg: "0 \<le> threshold" by (simp add: threshold_def)

lemma threshold_less_div_sqrt:
  assumes "0 < V" "0 < A"
  shows "(threshold < A / sqrt V) = (threshold\<^sup>2 * V < A\<^sup>2)"
proof -
  have s: "0 < sqrt V" using assms(1) by simp
  have t: "0 \<le> threshold * sqrt V"
    by (rule mult_nonneg_nonneg [OF threshold_nonneg less_imp_le [OF s]])
  have sq: "(threshold * sqrt V)\<^sup>2 = threshold\<^sup>2 * V"
    by (simp only: power_mult_distrib real_sqrt_pow2 [OF less_imp_le [OF assms(1)]])
  have "(threshold < A / sqrt V) = (threshold * sqrt V < A)"
    by (rule pos_less_divide_eq [OF s])
  also have "\<dots> = ((threshold * sqrt V)\<^sup>2 < A\<^sup>2)"
  proof
    assume "threshold * sqrt V < A"
    then show "(threshold * sqrt V)\<^sup>2 < A\<^sup>2"
      by (rule power_strict_mono [OF _ t]) (rule pos2)
  next
    assume "(threshold * sqrt V)\<^sup>2 < A\<^sup>2"
    then show "threshold * sqrt V < A"
      by (rule power2_less_imp_less [OF _ less_imp_le [OF assms(2)]])
  qed
  finally show ?thesis by (simp only: sq)
qed

text \<open>
  One iteration on a series with both outliers outside the limits and the fourteen equal
  values strictly inside.  With \<open>x\<close> the distance of the middle value from the lower
  limit and \<open>y\<close> its distance from the upper limit, the rescaled maximum exceeds the
  threshold exactly when \<open>threshold\<^sup>2 * (15 x\<^sup>2 + 15 y\<^sup>2 + 2 x y) < (x + 15 y)\<^sup>2\<close>, and
  the rescaled minimum is below its negative exactly when the same holds with \<open>x\<close> and
  \<open>y\<close> exchanged.
\<close>

lemma one_fourteen_one_iteration:
  fixes p c q u l :: real
  defines "x \<equiv> c - l" and "y \<equiv> u - c"
  defines "up \<equiv> threshold\<^sup>2 * (15 * x\<^sup>2 + 15 * y\<^sup>2 + 2 * x * y) < (x + 15 * y)\<^sup>2"
  defines "lo \<equiv> threshold\<^sup>2 * (15 * x\<^sup>2 + 15 * y\<^sup>2 + 2 * x * y) < (15 * x + y)\<^sup>2"
  assumes "p \<le> l" "l < c" "c < u" "u \<le> q" "0 < n" and mv: "up \<or> lo"
  shows "winsor_loop (Suc n) i (one_fourteen_one p c q) u l =
         winsor_loop n (i + 1) (one_fourteen_one l c u)
           (if up then u - step else u) (if lo then l + step else l)"
proof -
  define K where "K = 15 * x\<^sup>2 + 15 * y\<^sup>2 + 2 * x * y"
  define V where "V = K / 256"
  define s where "s = sqrt V"
  define m where "m = (l + 14 * c + u) / 16"
  have xy: "0 < x" "0 < y" using assms(6,7) by (simp_all add: x_def y_def)
  have "0 < 15 * x\<^sup>2" "0 < 15 * y\<^sup>2" "0 < 2 * x * y" using xy by simp_all
  then have K: "0 < K" unfolding K_def by linarith
  then have V: "0 < V" by (simp add: V_def)
  then have s: "0 < s" by (simp add: s_def)
  have um: "u - m = (x + 15 * y) / 16" by (simp add: m_def x_def y_def field_simps)
  have ml: "m - l = (15 * x + y) / 16" by (simp add: m_def x_def y_def field_simps)
  have cm: "c - m = (x - y) / 16" by (simp add: m_def x_def y_def field_simps)
  have um0: "0 < u - m" using xy by (simp add: um)
  have ml0: "0 < m - l" using xy by (simp add: ml)
  have ord: "l - m \<le> c - m" "c - m \<le> u - m" using assms(6,7) by simp_all
  have clip: "map (clip u l) (one_fourteen_one p c q) = one_fourteen_one l c u"
    by (rule clip_one_fourteen_one [OF assms(5-8)])
  have mean: "np_mean (one_fourteen_one l c u) = Fin m"
    by (simp only: np_mean_one_fourteen_one m_def)
  have std: "np_std (one_fourteen_one l c u) = Fin s"
    by (simp only: np_std_one_fourteen_one s_def V_def K_def x_def y_def)
  have res: "rescale (Fin m) (Fin s) (one_fourteen_one l c u)
      = one_fourteen_one ((l - m) / s) ((c - m) / s) ((u - m) / s)"
    using s by (intro rescale_one_fourteen_one) simp
  have ord': "(l - m) / s \<le> (c - m) / s" "(c - m) / s \<le> (u - m) / s"
    using ord s by (simp_all add: divide_right_mono)
  note mx = np_max_min_ascending(1) [OF ord'] and mn = np_max_min_ascending(2) [OF ord']
  note unf = winsor_loop_unfold [OF clip mean std res mx mn, of n i]
  have up_eq: "(threshold < (u - m) / s) = up"
  proof -
    have "(threshold < (u - m) / s) = (threshold\<^sup>2 * V < (u - m)\<^sup>2)"
      unfolding s_def by (rule threshold_less_div_sqrt [OF V um0])
    also have "(u - m)\<^sup>2 = (x + 15 * y)\<^sup>2 / 256" by (simp add: um power_divide)
    also have "threshold\<^sup>2 * V = threshold\<^sup>2 * K / 256" by (simp add: V_def)
    finally show ?thesis by (simp add: up_def K_def divide_less_cancel)
  qed
  have lo_eq: "((l - m) / s < - threshold) = lo"
  proof -
    have "l - m = - (m - l)" by simp
    then have "(l - m) / s = - ((m - l) / s)" by (simp only: minus_divide_left)
    then have "((l - m) / s < - threshold) = (threshold < (m - l) / s)" by simp
    also have "\<dots> = (threshold\<^sup>2 * V < (m - l)\<^sup>2)"
      unfolding s_def by (rule threshold_less_div_sqrt [OF V ml0])
    also have "(m - l)\<^sup>2 = (15 * x + y)\<^sup>2 / 256" by (simp add: ml power_divide)
    also have "threshold\<^sup>2 * V = threshold\<^sup>2 * K / 256" by (simp add: V_def)
    finally show ?thesis by (simp add: lo_def K_def divide_less_cancel)
  qed
  have A: "fle (Fin ((u - m) / s)) (Fin threshold) = (\<not> up)"
    unfolding up_eq [symmetric] by (simp add: not_less)
  have B: "fgt (Fin ((u - m) / s)) (Fin threshold) = up"
    unfolding up_eq [symmetric] by simp
  have C: "flt (Fin ((l - m) / s)) (Fin (- threshold)) = lo"
    unfolding lo_eq [symmetric] by simp
  have D: "fge (Fin ((l - m) / s)) (Fin (- threshold)) = (\<not> lo)"
    unfolding lo_eq [symmetric] by (simp add: not_less fge_def)
  have c1: "(\<not> up \<and> \<not> lo) = False" using mv by blast
  have c2: "(n = 0) = False" using assms(9) by simp
  show ?thesis
    unfolding unf A B C D by (simp only: c1 c2 if_False)
qed

text \<open>When does a limit move: the distance of the middle value from the two limits.\<close>

lemma exceeds_when_far:
  fixes x y :: real
  assumes "0 < x" "83 / 100 * x \<le> y"
  shows "threshold\<^sup>2 * (15 * x\<^sup>2 + 15 * y\<^sup>2 + 2 * x * y) < (x + 15 * y)\<^sup>2"
proof -
  have y: "0 \<le> y" using assms by simp
  have h1: "83 / 100 * (x * x) \<le> x * y"
    using mult_left_mono [OF assms(2), of x] assms(1) by (simp add: algebra_simps)
  have "0 \<le> 83 / 100 * x" using assms(1) by simp
  from mult_mono [OF assms(2) assms(2) y this]
  have h2: "6889 / 10000 * (x * x) \<le> y * y" by (simp add: algebra_simps)
  have h3: "0 < x * x" using assms(1) by simp
  have "(x + 15 * y)\<^sup>2 - threshold\<^sup>2 * (15 * x\<^sup>2 + 15 * y\<^sup>2 + 2 * x * y)
        = 125154 / 1000 * (y * y) + 166872 / 10000 * (x * y) - 98846 / 1000 * (x * x)"
    by (simp add: threshold_def power2_eq_square field_simps)
  with h1 h2 h3 show ?thesis by linarith
qed

lemma not_exceeds_when_near:
  fixes x y :: real
  assumes "0 < x" "0 \<le> y" "y \<le> 82 / 100 * x"
  shows "\<not> threshold\<^sup>2 * (15 * x\<^sup>2 + 15 * y\<^sup>2 + 2 * x * y) < (x + 15 * y)\<^sup>2"
proof -
  have h1: "x * y \<le> 82 / 100 * (x * x)"
    using mult_left_mono [OF assms(3), of x] assms(1) by (simp add: algebra_simps)
  from mult_mono [OF assms(3) assms(3) _ assms(2)] assms(1)
  have h2: "y * y \<le> 6724 / 10000 * (x * x)" by (simp add: algebra_simps)
  have h3: "0 < x * x" using assms(1) by simp
  have "(x + 15 * y)\<^sup>2 - threshold\<^sup>2 * (15 * x\<^sup>2 + 15 * y\<^sup>2 + 2 * x * y)
        = 125154 / 1000 * (y * y) + 166872 / 10000 * (x * y) - 98846 / 1000 * (x * x)"
    by (simp add: threshold_def power2_eq_square field_simps)
  with h1 h2 h3 show ?thesis by linarith
qed

lemma exceeds_when_far_sym:
  fixes x y :: real
  assumes "0 < y" "83 / 100 * y \<le> x"
  shows "threshold\<^sup>2 * (15 * x\<^sup>2 + 15 * y\<^sup>2 + 2 * x * y) < (15 * x + y)\<^sup>2"
  using exceeds_when_far [OF assms] by (simp add: algebra_simps)

text \<open>
  While the middle value is not nearer to the upper limit than 0.83 times its distance
  from the lower limit, and not farther from it than from the lower limit, both limits
  move in every iteration.
\<close>

lemma both_limits_move:
  assumes "p \<le> l" "u \<le> q" "u - c \<le> c - l"
    and "0 < u - real k * step - c"
    and "83 / 100 * (c - l - real k * step) \<le> u - real k * step - c"
    and "0 < n"
  shows "winsor_loop (Suc k + n) i (one_fourteen_one p c q) u l =
         winsor_loop n (i + Suc k) (one_fourteen_one (l + real k * step) c (u - real k * step))
           (u - real (Suc k) * step) (l + real (Suc k) * step)"
  using assms(1-5)
proof (induction k arbitrary: i p q u l)
  case 0
  have y: "0 < u - c" using 0(4) by simp
  with 0(3) have x: "0 < c - l" by simp
  have up: "threshold\<^sup>2 * (15 * (c - l)\<^sup>2 + 15 * (u - c)\<^sup>2 + 2 * (c - l) * (u - c)) < (c - l + 15 * (u - c))\<^sup>2"
    using 0(5) by (intro exceeds_when_far [OF x]) simp
  have lo: "threshold\<^sup>2 * (15 * (c - l)\<^sup>2 + 15 * (u - c)\<^sup>2 + 2 * (c - l) * (u - c)) < (15 * (c - l) + (u - c))\<^sup>2"
    using 0(3) y by (intro exceeds_when_far_sym [OF y]) simp
  have lc: "l < c" "c < u" using x y by simp_all
  from one_fourteen_one_iteration [OF 0(1) lc 0(2) assms(6), of i] up lo
  show ?case by simp
next
  case (Suc k)
  have st: "0 < step" by (simp add: step_def)
  have ks: "0 \<le> real (Suc k) * step" using st by simp
  define d0 where "d0 = real (Suc k) * step"
  have "0 \<le> d0" "0 < u - d0 - c" using ks Suc.prems(4) by (simp_all only: d0_def)
  then have y: "0 < u - c" by linarith
  with Suc.prems(3) have x: "0 < c - l" by simp
  define d where "d = real (Suc k) * step"
  have "0 \<le> d" "83 / 100 * (c - l - d) \<le> u - d - c"
    using ks Suc.prems(5) by (simp_all only: d_def)
  then have "83 / 100 * (c - l) \<le> u - c" by argo
  then have up: "threshold\<^sup>2 * (15 * (c - l)\<^sup>2 + 15 * (u - c)\<^sup>2 + 2 * (c - l) * (u - c)) < (c - l + 15 * (u - c))\<^sup>2"
    by (rule exceeds_when_far [OF x])
  have lo: "threshold\<^sup>2 * (15 * (c - l)\<^sup>2 + 15 * (u - c)\<^sup>2 + 2 * (c - l) * (u - c)) < (15 * (c - l) + (u - c))\<^sup>2"
    using Suc.prems(3) y by (intro exceeds_when_far_sym [OF y]) simp
  have lc: "l < c" "c < u" using x y by simp_all
  have n': "0 < Suc k + n" by simp
  from one_fourteen_one_iteration [OF Suc.prems(1) lc Suc.prems(2) n', of i] up lo
  have 1: "winsor_loop (Suc (Suc k) + n) i (one_fourteen_one p c q) u l =
        winsor_loop (Suc k + n) (i + 1) (one_fourteen_one l c u) (u - step) (l + step)"
    by simp
  have a: "l \<le> l + step" "u - step \<le> u" using st by simp_all
  have b: "u - step - c \<le> c - (l + step)" using Suc.prems(3) by simp
  have d: "0 < u - step - real k * step - c" using Suc.prems(4) by (simp add: algebra_simps)
  have e: "83 / 100 * (c - (l + step) - real k * step) \<le> u - step - real k * step - c"
    using Suc.prems(5) by (simp add: algebra_simps)
  from Suc.IH [OF a b d e, of "i + 1"] 1
  show ?case by (simp add: algebra_simps)
qed

text \<open>
  Once the limits have crossed and the clipped series is constant, the series jumps
  between the two limits from one iteration to the next, and no limit moves any more.
\<close>

lemma crossed_alternates:
  assumes "u < l" "0 < k"
  shows "map (clip u l) t = replicate k (Fin v) \<Longrightarrow> v = u \<or> v = l \<Longrightarrow>
     winsor_loop (Suc n) i t u l =
       Inr (i + n, \<lparr>w_var = replicate k NaN,
                     mean_t = Fin (if even n then v else if v = u then l else u),
                     std_t = Fin 0, upl = u, lol = l\<rparr>)"
proof (induction n arbitrary: i t v)
  case 0
  from winsor_loop_unfold [OF 0(1) np_mean_replicate [OF assms(2)] np_std_replicate [OF assms(2)]
      rescale_replicate np_max_replicate_NaN [OF assms(2)] np_min_replicate_NaN [OF assms(2)], of 0 i]
  show ?case by (simp del: winsor_loop.simps)
next
  case (Suc n)
  define v' where "v' = (if v = u then l else u)"
  have flip: "clip u l (Fin v) = Fin v'"
    using Suc.prems(2) assms(1) by (auto simp: v'_def clip_def np_where_def)
  then have next_t: "map (clip u l) (replicate k (Fin v)) = replicate k (Fin v')" by simp
  have v': "v' = u \<or> v' = l" by (simp add: v'_def)
  have again: "(if v' = u then l else u) = v"
    using Suc.prems(2) assms(1) by (auto simp: v'_def)
  from winsor_loop_unfold [OF Suc.prems(1) np_mean_replicate [OF assms(2)] np_std_replicate [OF assms(2)]
      rescale_replicate np_max_replicate_NaN [OF assms(2)] np_min_replicate_NaN [OF assms(2)], of "Suc n" i]
  have "winsor_loop (Suc (Suc n)) i t u l = winsor_loop (Suc n) (i + 1) (replicate k (Fin v)) u l"
    by (simp del: winsor_loop.simps)
  with Suc.IH [OF next_t v', of "i + 1"] show ?case
    by (simp add: again v'_def [symmetric])
qed

text \<open>
  The iteration after the limits have crossed: the upper limit is 0, the lower limit is
  one step above it, and the series holds 0, a value between the limits, and the old
  upper limit.  The clip takes the first value up to the lower limit and every other
  value down to 0; the rescaled maximum exceeds the threshold, so the upper limit moves
  once more.
\<close>

lemma crossed_iteration:
  assumes "0 < c" "c < 1 / 1000" "0 < n"
  shows "winsor_loop (Suc n) i (one_fourteen_one 0 c (1 / 1000)) 0 (1 / 1000) =
         winsor_loop n (i + 1) (one_fourteen_one (1 / 1000) 0 0) (- (1 / 1000)) (1 / 1000)"
proof -
  define V :: real where "V = 15 / 256000000"
  define s where "s = sqrt V"
  define m :: real where "m = 1 / 16000"
  have V: "0 < V" by (simp add: V_def)
  then have s: "0 < s" by (simp add: s_def)
  have c1: "clip 0 (1 / 1000) (Fin 0) = Fin (1 / 1000)"
    by (simp add: clip_def np_where_def)
  have c2: "clip 0 (1 / 1000) (Fin c) = Fin 0"
    using assms(1) by (simp add: clip_def np_where_def)
  have c3: "clip 0 (1 / 1000) (Fin (1 / 1000)) = Fin 0"
    by (simp add: clip_def np_where_def)
  have clip: "map (clip 0 (1 / 1000)) (one_fourteen_one 0 c (1 / 1000)) = one_fourteen_one (1 / 1000) 0 0"
    unfolding one_fourteen_one_def by (simp only: list.map c1 c2 c3)
  have mean: "np_mean (one_fourteen_one (1 / 1000) 0 0) = Fin m"
    by (simp add: np_mean_one_fourteen_one m_def)
  have "(15 * (0 - 1 / 1000)\<^sup>2 + 15 * (0 - 0)\<^sup>2 + 2 * (0 - 1 / 1000) * (0 - 0)) / 256 = V"
    by (simp add: V_def power2_eq_square)
  then have std: "np_std (one_fourteen_one (1 / 1000) 0 0) = Fin s"
    by (simp only: np_std_one_fourteen_one s_def)
  have res: "rescale (Fin m) (Fin s) (one_fourteen_one (1 / 1000) 0 0)
      = one_fourteen_one ((1 / 1000 - m) / s) ((0 - m) / s) ((0 - m) / s)"
    using s by (intro rescale_one_fourteen_one) simp
  have "0 - m \<le> 1 / 1000 - m" by simp
  then have ord: "(0 - m) / s \<le> (1 / 1000 - m) / s"
    using s by (intro divide_right_mono) simp_all
  note mx = np_max_min_first_high(1) [OF ord] and mn = np_max_min_first_high(2) [OF ord]
  note unf = winsor_loop_unfold [OF clip mean std res mx mn, of n i]
  have hi: "0 < 1 / 1000 - m" by (simp add: m_def)
  have m0: "0 < m" by (simp add: m_def)
  have up: "threshold < (1 / 1000 - m) / s"
  proof -
    have "threshold\<^sup>2 * V < (1 / 1000 - m)\<^sup>2"
      by (simp add: threshold_def V_def m_def power2_eq_square)
    then show ?thesis unfolding s_def by (simp only: threshold_less_div_sqrt [OF V hi] simp_thms)
  qed
  have lo: "\<not> (0 - m) / s < - threshold"
  proof -
    have "\<not> threshold\<^sup>2 * V < m\<^sup>2"
      by (simp add: threshold_def V_def m_def power2_eq_square)
    then have "\<not> threshold < m / s" unfolding s_def by (simp only: threshold_less_div_sqrt [OF V m0] simp_thms)
    moreover have "(0 - m) / s = - (m / s)" by simp
    ultimately show ?thesis by simp
  qed
  have A: "fle (Fin ((1 / 1000 - m) / s)) (Fin threshold) = False" using up by simp
  have B: "fgt (Fin ((1 / 1000 - m) / s)) (Fin threshold) = True" using up by simp
  have C: "flt (Fin ((0 - m) / s)) (Fin (- threshold)) = False" using lo by simp
  have n0: "(n = 0) = False" using assms(3) by simp
  have st: "0 - step = - (1 / 1000)" by (simp add: step_def)
  show ?thesis
    unfolding unf A B C by (simp only: simp_thms if_False if_True n0 st)
qed

section \<open>Sixteen facilities: the limits cross\<close>

text \<open>
  The raw values are \<open>- 1003\<close>, fourteen times 0, and 1000.  Both outliers have
  z-scores beyond the threshold, and the z-score of the fourteen equal values lies
  between 0.0005 and 0.00054.  Both limits move in each of the first 2575 iterations,
  only the lower one in iteration 2576, both again in the next five; after iteration
  2581 the upper limit is 0 and the lower limit 0.001.  Iteration 2582 moves the upper
  limit to \<open>- 0.001\<close>, and from then on the series is constant, jumping between the
  two limits, until iteration 10000.
\<close>

lemma pd_mean_sixteen:
  "pd_mean [Some (- 1003), Some 0, Some 0, Some 0, Some 0, Some 0, Some 0, Some 0, Some 0,
            Some 0, Some 0, Some 0, Some 0, Some 0, Some 0, Some 1000] = Fin (- 3 / 16)"
  by (simp add: pd_mean_def)

lemma pd_std_sixteen:
  "pd_std [Some (- 1003), Some 0, Some 0, Some 0, Some 0, Some 0, Some 0, Some 0, Some 0,
           Some 0, Some 0, Some 0, Some 0, Some 0, Some 0, Some 1000] = Fin (sqrt (6419227 / 48))"
  by (simp add: pd_std_def Let_def del: real_sqrt_divide)

lemma sd_sixteen_bounds: "365 < sqrt (6419227 / 48)" "sqrt (6419227 / 48) < 366"
proof -
  have "(365::real)\<^sup>2 < 6419227 / 48" by (simp add: power2_eq_square)
  then show "365 < sqrt (6419227 / 48)" by (rule real_less_rsqrt)
  have "(6419227 / 48 :: real) < 366\<^sup>2" by (simp add: power2_eq_square)
  then show "sqrt (6419227 / 48) < 366" by (intro real_less_lsqrt) simp_all
qed

lemma zscores_sixteen:
  "zscores [Some (- 1003), Some 0, Some 0, Some 0, Some 0, Some 0, Some 0, Some 0, Some 0,
            Some 0, Some 0, Some 0, Some 0, Some 0, Some 0, Some 1000]
   = one_fourteen_one ((- 1003 - (- 3 / 16)) / sqrt (6419227 / 48))
       ((0 - (- 3 / 16)) / sqrt (6419227 / 48))
       ((1000 - (- 3 / 16)) / sqrt (6419227 / 48))"
proof -
  have nz: "sqrt (6419227 / 48 :: real) \<noteq> 0" using sd_sixteen_bounds(1) by simp
  have f: "fdiv (fsub (Fin a) (Fin (- 3 / 16))) (Fin (sqrt (6419227 / 48)))
        = Fin ((a - (- 3 / 16)) / sqrt (6419227 / 48))" for a
    by (simp only: fsub_Fin fdiv.simps nz if_False)
  show ?thesis
    unfolding zscores_def pd_mean_sixteen pd_std_sixteen rescale_def one_fourteen_one_def
    by (simp only: list.map of_cell.simps f)
qed

lemma winsorize_sixteen:
  "winsorize [Some (- 1003), Some 0, Some 0, Some 0, Some 0, Some 0, Some 0, Some 0, Some 0,
              Some 0, Some 0, Some 0, Some 0, Some 0, Some 0, Some 1000]
   = Inr (10000, \<lparr>w_var = replicate 16 NaN, mean_t = Fin (1 / 1000), std_t = Fin 0,
                   upl = - (1 / 1000), lol = 1 / 1000\<rparr>)"
proof -
  define sd :: real where "sd = sqrt (6419227 / 48)"
  define p where "p = (- 1003 - (- 3 / 16)) / sd"
  define c where "c = (0 - (- 3 / 16)) / sd"
  define q where "q = (1000 - (- 3 / 16)) / sd"
  have sd: "365 < sd" "sd < 366" using sd_sixteen_bounds by (simp_all add: sd_def)
  then have sd0: "0 < sd" by simp
  have c: "5 / 10000 < c" "c < 54 / 100000"
    using sd sd0 by (simp_all add: c_def field_simps)
  have p: "p \<le> - threshold"
    using sd sd0 by (simp add: p_def threshold_def field_simps)
  have q: "threshold \<le> q"
    using sd sd0 by (simp add: q_def threshold_def field_simps)
  have n1: "0 < (7425::nat)" and n2: "0 < (7424::nat)" and n3: "0 < (7419::nat)"
    and n4: "0 < (7418::nat)" and k16: "0 < (16::nat)" by simp_all
  txt \<open>Iterations 1 to 2575.\<close>
  have a1: "threshold - c \<le> c - - threshold" using c by simp
  have a2: "0 < threshold - real (2574::nat) * step - c"
    using c by (simp add: threshold_def step_def)
  have a3: "83 / 100 * (c - - threshold - real (2574::nat) * step) \<le> threshold - real (2574::nat) * step - c"
    using c by (simp add: threshold_def step_def)
  have e1: "- threshold + real (2574::nat) * step = - (6 / 1000)"
    "threshold - real (2574::nat) * step = 6 / 1000"
    "threshold - real (Suc 2574) * step = 5 / 1000"
    "- threshold + real (Suc 2574) * step = - (5 / 1000)"
    by (simp_all add: threshold_def step_def)
  have 1: "winsor_loop (Suc 2574 + 7425) 1 (one_fourteen_one p c q) threshold (- threshold)
        = winsor_loop 7425 (1 + Suc 2574) (one_fourteen_one (- (6 / 1000)) c (6 / 1000))
            (5 / 1000) (- (5 / 1000))"
    using both_limits_move [OF p q a1 a2 a3 n1, of 1] by (simp only: e1)
  txt \<open>Iteration 2576.\<close>
  have b1: "- (6 / 1000) \<le> - (5 / 1000 :: real)" "(5 / 1000 :: real) \<le> 6 / 1000" by simp_all
  have b2: "- (5 / 1000) < c" "c < 5 / 1000" using c by simp_all
  have x0: "0 < c - - (5 / 1000)" and y0: "0 < 5 / 1000 - c" using c by simp_all
  have up: "\<not> threshold\<^sup>2 * (15 * (c - - (5 / 1000))\<^sup>2 + 15 * (5 / 1000 - c)\<^sup>2
                + 2 * (c - - (5 / 1000)) * (5 / 1000 - c)) < (c - - (5 / 1000) + 15 * (5 / 1000 - c))\<^sup>2"
    using c by (intro not_exceeds_when_near [OF x0]) simp_all
  have lo: "threshold\<^sup>2 * (15 * (c - - (5 / 1000))\<^sup>2 + 15 * (5 / 1000 - c)\<^sup>2
                + 2 * (c - - (5 / 1000)) * (5 / 1000 - c)) < (15 * (c - - (5 / 1000)) + (5 / 1000 - c))\<^sup>2"
    using c by (intro exceeds_when_far_sym [OF y0]) simp
  have e2: "- (5 / 1000) + step = - (4 / 1000)" by (simp add: step_def)
  have 2: "winsor_loop (Suc 7424) (1 + Suc 2574) (one_fourteen_one (- (6 / 1000)) c (6 / 1000))
            (5 / 1000) (- (5 / 1000))
        = winsor_loop 7424 (1 + Suc 2574 + 1) (one_fourteen_one (- (5 / 1000)) c (5 / 1000))
            (5 / 1000) (- (4 / 1000))"
    using one_fourteen_one_iteration [OF b1(1) b2 b1(2) n2, of "1 + Suc 2574"] up lo
    by (simp only: simp_thms if_False if_True e2)
  txt \<open>Iterations 2577 to 2581.\<close>
  have d1: "- (5 / 1000) \<le> - (4 / 1000 :: real)" "(5 / 1000 :: real) \<le> 5 / 1000" by simp_all
  have d2: "5 / 1000 - c \<le> c - - (4 / 1000)" using c by simp
  have d3: "0 < 5 / 1000 - real (4::nat) * step - c" using c by (simp add: step_def)
  have d4: "83 / 100 * (c - - (4 / 1000) - real (4::nat) * step) \<le> 5 / 1000 - real (4::nat) * step - c"
    using c by (simp add: step_def)
  have e3: "- (4 / 1000) + real (4::nat) * step = 0" "5 / 1000 - real (4::nat) * step = 1 / 1000"
    "5 / 1000 - real (Suc 4) * step = 0" "- (4 / 1000) + real (Suc 4) * step = 1 / 1000"
    by (simp_all add: step_def)
  have 3: "winsor_loop (Suc 4 + 7419) (1 + Suc 2574 + 1) (one_fourteen_one (- (5 / 1000)) c (5 / 1000))
            (5 / 1000) (- (4 / 1000))
        = winsor_loop 7419 (1 + Suc 2574 + 1 + Suc 4) (one_fourteen_one 0 c (1 / 1000)) 0 (1 / 1000)"
    using both_limits_move [OF d1 d2 d3 d4 n3, of "1 + Suc 2574 + 1"] by (simp only: e3)
  txt \<open>Iteration 2582.\<close>
  have c0: "0 < c" "c < 1 / 1000" using c by simp_all
  have 4: "winsor_loop (Suc 7418) (1 + Suc 2574 + 1 + Suc 4) (one_fourteen_one 0 c (1 / 1000)) 0 (1 / 1000)
        = winsor_loop 7418 (1 + Suc 2574 + 1 + Suc 4 + 1) (one_fourteen_one (1 / 1000) 0 0)
            (- (1 / 1000)) (1 / 1000)"
    by (rule crossed_iteration [OF c0 n4])
  txt \<open>Iterations 2583 to 10000.\<close>
  have cl: "map (clip (- (1 / 1000)) (1 / 1000)) (one_fourteen_one (1 / 1000) 0 0)
        = replicate 16 (Fin (- (1 / 1000)))"
    by (simp add: one_fourteen_one_def clip_def np_where_def eval_nat_numeral)
  have cr: "- (1 / 1000) < (1 / 1000 :: real)" by simp
  have 5: "winsor_loop (Suc 7417) (1 + Suc 2574 + 1 + Suc 4 + 1) (one_fourteen_one (1 / 1000) 0 0)
            (- (1 / 1000)) (1 / 1000)
        = Inr (1 + Suc 2574 + 1 + Suc 4 + 1 + 7417,
               \<lparr>w_var = replicate 16 NaN,
                  mean_t = Fin (if even (7417::nat) then - (1 / 1000)
                                else if - (1 / 1000) = (- (1 / 1000) :: real) then 1 / 1000 else - (1 / 1000)),
                  std_t = Fin 0, upl = - (1 / 1000), lol = 1 / 1000\<rparr>)"
    by (rule crossed_alternates [OF cr k16 cl]) simp
  have s: "Suc 2574 + 7425 = 10000" "Suc 7424 = 7425" "Suc 4 + 7419 = 7424" "Suc 7418 = 7419"
    "Suc 7417 = 7418" "1 + Suc 2574 + 1 + Suc 4 + 1 + 7417 = 10000" by simp_all
  have "winsor_loop 10000 1 (one_fourteen_one p c q) threshold (- threshold)
        = Inr (10000, \<lparr>w_var = replicate 16 NaN, mean_t = Fin (1 / 1000), std_t = Fin 0,
                   upl = - (1 / 1000), lol = 1 / 1000\<rparr>)"
    using 1 2 3 4 5 unfolding s by simp
  then show ?thesis
    by (simp only: winsorize_def zscores_sixteen p_def c_def q_def sd_def)
qed

lemma raw_sixteen_rows:
  "map raw sixteen_rows =
     [Some (- 1003), Some 0, Some 0, Some 0, Some 0, Some 0, Some 0, Some 0, Some 0,
      Some 0, Some 0, Some 0, Some 0, Some 0, Some 0, Some 1000]"
  by (simp add: sixteen_rows_def)

lemma restandardize_row_above_upper:
  assumes "fdiv (fsub (of_cell x) m) s = Fin c" and "- (1 / 1000) < c"
  shows "restandardize_row m s (Fin (- (1 / 1000))) (Fin (1 / 1000)) (Fin (1 / 1000)) (Fin 0)
           \<lparr>provfs = k, raw = x\<rparr>
         = \<lparr>provfs = k, raw = x, zc = Fin c, tc = Fin (- (1 / 1000)), flagtc = 2, wc = NInf\<rparr>"
  using assms(2) by (simp add: restandardize_row_def Let_def assms(1) notna_def)

lemma restandardize_row_middle:
  "restandardize_row (Fin (- 3 / 16)) (Fin (sqrt (6419227 / 48)))
     (Fin (- (1 / 1000))) (Fin (1 / 1000)) (Fin (1 / 1000)) (Fin 0) \<lparr>provfs = 2, raw = Some 0\<rparr>
   = \<lparr>provfs = 2, raw = Some 0, zc = Fin ((0 - (- 3 / 16)) / sqrt (6419227 / 48)),
      tc = Fin (- (1 / 1000)), flagtc = 2, wc = NInf\<rparr>"
proof (rule restandardize_row_above_upper)
  have nz: "sqrt (6419227 / 48 :: real) \<noteq> 0" using sd_sixteen_bounds(1) by simp
  show "fdiv (fsub (of_cell (Some 0)) (Fin (- 3 / 16))) (Fin (sqrt (6419227 / 48)))
        = Fin ((0 - (- 3 / 16)) / sqrt (6419227 / 48))"
    by (simp only: of_cell.simps fsub_Fin fdiv.simps nz if_False)
  have "0 < sqrt (6419227 / 48 :: real)" using sd_sixteen_bounds(1) by simp
  then have "0 < (0 - (- 3 / 16)) / sqrt (6419227 / 48 :: real)"
    by (intro divide_pos_pos) simp_all
  then show "- (1 / 1000) < (0 - (- 3 / 16)) / sqrt (6419227 / 48 :: real)" by linarith
qed

text \<open>
  C4, as stated.  The sixteen facilities above: the baseline stores crossed limits (upper limit
  \<open>- 0.001\<close>, lower limit 0.001) and NaN as the winsorized score of every facility,
  while the current period, run on the same raw values with the stored parameters, gives
  facility 2 the re-standardized score minus infinity.
\<close>

theorem round_trip_crossed_counterexample:
  "winsorize (map raw sixteen_rows)
     = Inr (10000, \<lparr>w_var = replicate 16 NaN, mean_t = Fin (1 / 1000), std_t = Fin 0,
                     upl = - (1 / 1000), lol = 1 / 1000\<rparr>) \<and>
   sixteen_rows ! 1 = \<lparr>provfs = 2, raw = Some 0\<rparr> \<and>
   replicate 16 NaN ! 1 = NaN \<and>
   \<lparr>provfs = 2, raw = Some 0, zc = Fin ((0 - (- 3 / 16)) / sqrt (6419227 / 48)),
      tc = Fin (- (1 / 1000)), flagtc = 2, wc = NInf\<rparr>
     \<in> set (restandardize_var sixteen_rows (pd_mean (map raw sixteen_rows))
              (pd_std (map raw sixteen_rows)) (Fin (- (1 / 1000))) (Fin (1 / 1000))
              (Fin (1 / 1000)) (Fin 0))"
proof (intro conjI)
  show "winsorize (map raw sixteen_rows)
     = Inr (10000, \<lparr>w_var = replicate 16 NaN, mean_t = Fin (1 / 1000), std_t = Fin 0,
                     upl = - (1 / 1000), lol = 1 / 1000\<rparr>)"
    by (simp only: raw_sixteen_rows winsorize_sixteen)
  show "sixteen_rows ! 1 = \<lparr>provfs = 2, raw = Some 0\<rparr>" by (simp add: sixteen_rows_def)
  show "replicate 16 NaN ! 1 = NaN" by simp
  have "\<lparr>provfs = 2, raw = Some 0\<rparr> \<in> set sixteen_rows" by (simp add: sixteen_rows_def)
  then have "restandardize_row (Fin (- 3 / 16)) (Fin (sqrt (6419227 / 48)))
     (Fin (- (1 / 1000))) (Fin (1 / 1000)) (Fin (1 / 1000)) (Fin 0) \<lparr>provfs = 2, raw = Some 0\<rparr>
     \<in> set (restandardize_var sixteen_rows (Fin (- 3 / 16)) (Fin (sqrt (6419227 / 48)))
              (Fin (- (1 / 1000))) (Fin (1 / 1000)) (Fin (1 / 1000)) (Fin 0))"
    unfolding set_restandardize_var by (rule imageI)
  then show "\<lparr>provfs = 2, raw = Some 0, zc = Fin ((0 - (- 3 / 16)) / sqrt (6419227 / 48)),
      tc = Fin (- (1 / 1000)), flagtc = 2, wc = NInf\<rparr>
     \<in> set (restandardize_var sixteen_rows (pd_mean (map raw sixteen_rows))
              (pd_std (map raw sixteen_rows)) (Fin (- (1 / 1000))) (Fin (1 / 1000))
              (Fin (1 / 1000)) (Fin 0))"
    by (simp only: restandardize_row_middle raw_sixteen_rows pd_mean_sixteen pd_std_sixteen)
qed

end
